theory Spec2Isabelle
  imports Complex_Main
begin

section \<open>Values, exceptions and dictionaries\<close>

text \<open>
  The comparison engine of \<^verbatim>\<open>src/comparison_engine.py\<close> works on Python dictionaries
  whose leaves are scalars of any type.

  Scope of the model.  Strings are HOL strings holding ASCII text: the character classes
  \<open>is_digit\<close>, \<open>is_word_char\<close>, \<open>is_space\<close> and the case mappings \<open>lower_char\<close>,
  \<open>upper_char\<close> are what Python's Unicode-aware \<^verbatim>\<open>\d\<close>, \<^verbatim>\<open>\w\<close>, \<^verbatim>\<open>\b\<close>, \<^verbatim>\<open>\s\<close>,
  \<^verbatim>\<open>str.lower\<close> and \<^verbatim>\<open>str.title\<close> do on ASCII characters; text with other characters
  (accented letters, non-breaking spaces) is outside the model.  Python floats are
  modelled by exact rationals: \<^verbatim>\<open>float(...)\<close> of a decimal text is its exact value and the
  conversion factors are the exact quotients written in the source.  A double differs
  from these by binary rounding (so two values that are equal here can differ in the last
  bit there, as \<^verbatim>\<open>2.54 * (1 / 2.54)\<close> and \<^verbatim>\<open>1.0\<close> do) and overflows to infinity on very
  long digit strings; the statements below are either about values that are exact in
  both, or hold for any linear order on the normalized values.
\<close>

datatype pyval = PStr string | PInt int | PBool bool | PNone

text \<open>
  The exceptions that the engine can raise.  \<open>DataProcessingError e n\<close> is the error built
  by \<^verbatim>\<open>compare_products\<close>: its message is "Failed to compare products: " followed by
  the text of the caught exception \<open>e\<close>, and \<open>n\<close> is \<^verbatim>\<open>details["product_count"]\<close>.
\<close>

datatype py_error = KeyError string | TypeError | DataProcessingError py_error nat

text \<open>
  A Python dictionary keeps its keys in insertion order: it is an association list, read
  with \<open>dict_get\<close> and written with \<open>dict_set\<close>, which overwrites the value of a key that
  is present (keeping its position) and appends a new key at the end.
\<close>

type_synonym ('k, 'v) dict = "('k \<times> 'v) list"

fun dict_get :: "('k, 'v) dict \<Rightarrow> 'k \<Rightarrow> 'v option" where
  "dict_get [] k = None"
| "dict_get ((k', v) # d) k = (if k' = k then Some v else dict_get d k)"

fun dict_set :: "('k, 'v) dict \<Rightarrow> 'k \<Rightarrow> 'v \<Rightarrow> ('k, 'v) dict" where
  "dict_set [] k v = [(k, v)]"
| "dict_set ((k', v') # d) k v = (if k' = k then (k', v) # d else (k', v') # dict_set d k v)"

definition dict_get_default :: "('k, 'v) dict \<Rightarrow> 'k \<Rightarrow> 'v \<Rightarrow> 'v" where
  "dict_get_default d k dflt = (case dict_get d k of None \<Rightarrow> dflt | Some v \<Rightarrow> v)"

definition dict_keys :: "('k, 'v) dict \<Rightarrow> 'k list" where
  "dict_keys d = map fst d"

section \<open>Characters, strings and the regular expressions of the source\<close>

definition is_digit :: "char \<Rightarrow> bool" where
  "is_digit c = (c \<in> set ''0123456789'')"

definition is_lower :: "char \<Rightarrow> bool" where
  "is_lower c = (c \<in> set ''abcdefghijklmnopqrstuvwxyz'')"

definition is_upper :: "char \<Rightarrow> bool" where
  "is_upper c = (c \<in> set ''ABCDEFGHIJKLMNOPQRSTUVWXYZ'')"

definition is_alpha :: "char \<Rightarrow> bool" where
  "is_alpha c = (is_lower c \<or> is_upper c)"

definition is_word_char :: "char \<Rightarrow> bool" where
  "is_word_char c = (is_alpha c \<or> is_digit c \<or> c = CHR ''_'')"

definition is_space :: "char \<Rightarrow> bool" where
  \<comment> \<open>the ASCII characters that \<^verbatim>\<open>\s\<close> matches in a \<^verbatim>\<open>str\<close> pattern\<close>
  "is_space c = (c \<in> {CHR '' '', CHR 0x09, CHR 0x0A, CHR 0x0B, CHR 0x0C, CHR 0x0D,
                         CHR 0x1C, CHR 0x1D, CHR 0x1E, CHR 0x1F})"

definition lower_char :: "char \<Rightarrow> char" where
  "lower_char c =
     (case dict_get (zip ''ABCDEFGHIJKLMNOPQRSTUVWXYZ'' ''abcdefghijklmnopqrstuvwxyz'') c of
        None \<Rightarrow> c
      | Some l \<Rightarrow> l)"

definition upper_char :: "char \<Rightarrow> char" where
  "upper_char c =
     (case dict_get (zip ''abcdefghijklmnopqrstuvwxyz'' ''ABCDEFGHIJKLMNOPQRSTUVWXYZ'') c of
        None \<Rightarrow> c
      | Some u \<Rightarrow> u)"

definition lower :: "string \<Rightarrow> string" where
  "lower s = map lower_char s"

text \<open>\<^verbatim>\<open>a in b\<close> on strings: \<open>a\<close> occurs in \<open>b\<close> as a contiguous substring.\<close>

fun is_prefix :: "string \<Rightarrow> string \<Rightarrow> bool" where
  "is_prefix [] s = True"
| "is_prefix (c # cs) [] = False"
| "is_prefix (c # cs) (d # ds) = (c = d \<and> is_prefix cs ds)"

fun str_in :: "string \<Rightarrow> string \<Rightarrow> bool" where
  "str_in a [] = (a = [])"
| "str_in a (c # cs) = (is_prefix a (c # cs) \<or> str_in a cs)"

text \<open>
  Python's \<^verbatim>\<open>re\<close> matches by backtracking: every piece of a pattern offers its ways
  to match a prefix of the text in order of preference (a greedy repetition offers the
  longest first), and the first way that lets the rest of the pattern match is taken.
  A piece is therefore a function from the text to the list of (matched, rest) pairs in
  that order, and a pattern matches at a position with the first element of the combined
  list.
\<close>

definition re_many :: "(char \<Rightarrow> bool) \<Rightarrow> nat \<Rightarrow> string \<Rightarrow> (string \<times> string) list" where
  \<comment> \<open>a greedy repetition of a character class, at least \<open>lo\<close> times\<close>
  "re_many P lo s =
     map (\<lambda>k. (take k s, drop k s)) (rev [lo ..< Suc (length (takeWhile P s))])"

definition re_number :: "string \<Rightarrow> (string \<times> string) list" where
  \<comment> \<open>\<^verbatim>\<open>(\d+(?:\.\d+)?)\<close>\<close>
  "re_number s =
     concat (map (\<lambda>(d, r1).
        (case r1 of
           c # r \<Rightarrow> if c = CHR ''.''
                    then map (\<lambda>(f, r2). (d @ ''.'' @ f, r2)) (re_many is_digit 1 r)
                    else []
         | [] \<Rightarrow> []) @ [(d, r1)]) (re_many is_digit 1 s))"

definition re_value_unit :: "string list \<Rightarrow> string \<Rightarrow> (string \<times> string) list" where
  \<comment> \<open>\<^verbatim>\<open>(\d+(?:\.\d+)?)\s*(u1|u2|...)\<close>: the groups of every way to match at the start\<close>
  "re_value_unit units s =
     concat (map (\<lambda>(num, r).
       concat (map (\<lambda>(ws, r'). map (\<lambda>u. (num, u)) (filter (\<lambda>u. is_prefix u r') units))
                   (re_many is_space 0 r))) (re_number s))"

definition re_value_letters :: "string \<Rightarrow> (string \<times> string) list" where
  \<comment> \<open>\<^verbatim>\<open>(\d+(?:\.\d+)?)\s*([a-zA-Z]+)\<close>\<close>
  "re_value_letters s =
     concat (map (\<lambda>(num, r).
       concat (map (\<lambda>(ws, r'). map (\<lambda>(l, r''). (num, l)) (re_many is_alpha 1 r'))
                   (re_many is_space 0 r))) (re_number s))"

definition first_match :: "'a list \<Rightarrow> 'a option" where
  "first_match xs = (case xs of [] \<Rightarrow> None | x # _ \<Rightarrow> Some x)"

text \<open>\<^verbatim>\<open>re.search\<close>: the match at the leftmost position where the pattern matches.\<close>

fun re_search :: "(string \<Rightarrow> 'a list) \<Rightarrow> string \<Rightarrow> 'a option" where
  "re_search p [] = first_match (p [])"
| "re_search p (c # cs) =
     (case first_match (p (c # cs)) of Some m \<Rightarrow> Some m | None \<Rightarrow> re_search p cs)"

text \<open>\<^verbatim>\<open>float(...)\<close> of a text matched by \<^verbatim>\<open>\d+(?:\.\d+)?\<close>.\<close>

definition digit_value :: "char \<Rightarrow> nat" where
  "digit_value c = of_char c - 48"

definition nat_of_digits :: "string \<Rightarrow> nat" where
  "nat_of_digits s = foldl (\<lambda>a c. 10 * a + digit_value c) 0 s"

definition py_float :: "string \<Rightarrow> rat" where
  "py_float s =
     (let ip = takeWhile is_digit s; fp = drop (Suc (length ip)) s
      in of_nat (nat_of_digits ip) + of_nat (nat_of_digits fp) / 10 ^ length fp)"

section \<open>UnitConverter\<close>

definition conversion_factors :: "(string, (string, rat) dict) dict" where
  "conversion_factors =
     [(''storage'', [(''KB'', 1 / (1024 * 1024)), (''MB'', 1 / 1024), (''GB'', 1),
                     (''TB'', 1024)]),
      (''memory'', [(''MB'', 1 / 1024), (''GB'', 1)]),
      (''display'', [(''cm'', 1 / (254 / 100)), (''mm'', 1 / (254 / 10)), (''inch'', 1),
                     ([CHR 0x22], 1)]),
      (''processor'', [(''MHz'', 1 / 1000), (''GHz'', 1)]),
      (''battery'', [(''mAh'', 1), (''Wh'', 270)]),
      (''weight'', [(''mg'', 1 / 1000), (''g'', 1), (''kg'', 1000), (''oz'', 2835 / 100),
                    (''lb'', 45359 / 100)])]"

definition base_units :: "(string, string) dict" where
  "base_units =
     [(''storage'', ''GB''), (''memory'', ''GB''), (''display'', ''inch''),
      (''processor'', ''GHz''), (''battery'', ''mAh''), (''weight'', ''g''),
      (''resolution'', ''pixels''), (''refresh_rate'', ''Hz'')]"

text \<open>
  \<^verbatim>\<open>value_unit_patterns\<close> holds one compiled pattern per category of
  \<open>conversion_factors\<close>, built from the unit names in their order; the model keeps the
  unit names.
\<close>

definition value_unit_patterns :: "(string, string list) dict" where
  "value_unit_patterns = map (\<lambda>(category, units). (category, dict_keys units)) conversion_factors"

definition extract_value_and_unit :: "pyval \<Rightarrow> string \<Rightarrow> rat option \<times> string option" where
  "extract_value_and_unit value_str category =
     (case value_str of
        PStr s \<Rightarrow>
          (case dict_get value_unit_patterns category of
             None \<Rightarrow>
               (case re_search re_value_letters s of
                  Some (num, unit) \<Rightarrow> (Some (py_float num), Some unit)
                | None \<Rightarrow> (None, None))
           | Some units \<Rightarrow>
               (case re_search (re_value_unit units) s of
                  Some (num, unit) \<Rightarrow> (Some (py_float num), Some unit)
                | None \<Rightarrow>
                    (case re_search re_number s of
                       Some (num, r) \<Rightarrow> (Some (py_float num), None)
                     | None \<Rightarrow> (None, None))))
      | _ \<Rightarrow> (None, None))"

definition convert_to_base_unit :: "rat \<Rightarrow> string \<Rightarrow> string \<Rightarrow> rat \<times> string" where
  "convert_to_base_unit val unit category =
     (case dict_get conversion_factors category of
        None \<Rightarrow> (val, unit)
      | Some factors \<Rightarrow>
          (case dict_get factors unit of
             None \<Rightarrow> (val, unit)
           | Some conversion_factor \<Rightarrow>
               (val * conversion_factor, dict_get_default base_units category unit)))"

definition normalize_for_comparison :: "pyval \<Rightarrow> string \<Rightarrow> rat option \<times> string option" where
  "normalize_for_comparison value_str category =
     (case extract_value_and_unit value_str category of
        (None, u) \<Rightarrow> (None, None)
      | (Some val, None) \<Rightarrow> (Some val, Some (dict_get_default base_units category ''''))
      | (Some val, Some unit) \<Rightarrow>
          (case convert_to_base_unit val unit category of (x, b) \<Rightarrow> (Some x, Some b)))"

definition is_comparable :: "pyval \<Rightarrow> pyval \<Rightarrow> string \<Rightarrow> bool" where
  "is_comparable value1 value2 category =
     (fst (normalize_for_comparison value1 category) \<noteq> None
      \<and> fst (normalize_for_comparison value2 category) \<noteq> None)"

definition compare_values ::
  "pyval \<Rightarrow> pyval \<Rightarrow> string \<Rightarrow> rat option \<times> rat option \<times> string option" where
  "compare_values value1 value2 category =
     (let norm1 = normalize_for_comparison value1 category;
          norm2 = normalize_for_comparison value2 category
      in if fst norm1 = None \<or> fst norm2 = None then (None, None, None)
         else (fst norm1, fst norm2, snd norm1))"

section \<open>FeatureMatcher\<close>

definition similarity_threshold :: rat where
  "similarity_threshold = 7 / 10"

definition feature_categories :: "(string, string list) dict" where
  "feature_categories =
     [(''processor'', [''processor'', ''cpu'', ''chipset'', ''soc'']),
      (''memory'', [''ram'', ''memory'']),
      (''storage'', [''storage'', ''disk'', ''drive'', ''ssd'', ''hdd'']),
      (''display'', [''display'', ''screen'', ''monitor'']),
      (''camera'', [''camera'', ''lens'', ''photo'']),
      (''battery'', [''battery'', ''power'', ''charge'']),
      (''dimensions'', [''dimensions'', ''size'', ''weight'']),
      (''connectivity'', [''wifi'', ''bluetooth'', ''nfc'', ''usb'', ''port'']),
      (''os'', [''os'', ''operating system'', ''software'']),
      (''price'', [''price'', ''cost'', ''msrp'']),
      (''graphics'', [''graphics'', ''gpu'', ''vga'', ''video''])]"

text \<open>
  \<^verbatim>\<open>_compile_key_feature_patterns\<close> compiles, for every keyword, the pattern
  \<^verbatim>\<open>(?i)\b<keyword>\w*\b\<close>.  \<open>word_boundary\<close> is \<^verbatim>\<open>\b\<close> between the character before
  the position (if any) and the character after it (if any); \<open>keyword_at\<close> is a match of
  the pattern at a position, and \<open>keyword_search\<close> is \<^verbatim>\<open>pattern.search\<close>.
\<close>

definition is_word_opt :: "char option \<Rightarrow> bool" where
  "is_word_opt c = (case c of None \<Rightarrow> False | Some x \<Rightarrow> is_word_char x)"

definition word_boundary :: "char option \<Rightarrow> char option \<Rightarrow> bool" where
  "word_boundary prev nxt = (is_word_opt prev \<noteq> is_word_opt nxt)"

definition first_char :: "string \<Rightarrow> char option" where
  "first_char s = (case s of [] \<Rightarrow> None | c # _ \<Rightarrow> Some c)"

definition last_char :: "string \<Rightarrow> char option" where
  "last_char s = first_char (rev s)"

definition keyword_at :: "string \<Rightarrow> char option \<Rightarrow> string \<Rightarrow> bool" where
  "keyword_at keyword prev s =
     (word_boundary prev (first_char s)
      \<and> length keyword \<le> length s
      \<and> lower (take (length keyword) s) = lower keyword
      \<and> list_ex (\<lambda>(w, r). word_boundary (last_char (take (length keyword) s @ w)) (first_char r))
           (re_many is_word_char 0 (drop (length keyword) s)))"

fun keyword_search :: "string \<Rightarrow> char option \<Rightarrow> string \<Rightarrow> bool" where
  "keyword_search keyword prev [] = keyword_at keyword prev []"
| "keyword_search keyword prev (c # cs) =
     (keyword_at keyword prev (c # cs) \<or> keyword_search keyword (Some c) cs)"

text \<open>\<^verbatim>\<open>s.split(sep, 1)[0]\<close> when \<^verbatim>\<open>sep in s\<close>, and \<open>None\<close> when it is not.\<close>

fun split_before :: "string \<Rightarrow> string \<Rightarrow> string option" where
  "split_before sep [] = (if sep = [] then Some [] else None)"
| "split_before sep (c # cs) =
     (if is_prefix sep (c # cs) then Some []
      else map_option ((#) c) (split_before sep cs))"

definition categorize_feature :: "string \<Rightarrow> string" where
  "categorize_feature feature_key =
     (case split_before '' - '' feature_key of
        Some category \<Rightarrow> lower category
      | None \<Rightarrow>
          (case find (\<lambda>(category, keywords).
                        list_ex (\<lambda>keyword. keyword_search keyword None (lower feature_key))
                          keywords) feature_categories of
             Some (category, keywords) \<Rightarrow> category
           | None \<Rightarrow> ''other''))"

text \<open>
  \<^verbatim>\<open>re.findall(r"\b\w+\b", s)\<close>: the maximal runs of word characters, from left to
  right.
\<close>

function words :: "string \<Rightarrow> string list" where
  "words [] = []"
| "words (c # cs) =
     (if is_word_char c
      then (c # takeWhile is_word_char cs) # words (dropWhile is_word_char cs)
      else words cs)"
  by pat_completeness auto
termination
  by (relation "measure length") (auto simp: length_dropWhile_le less_Suc_eq_le)

definition calculate_similarity :: "string \<Rightarrow> string \<Rightarrow> rat" where
  "calculate_similarity str1 str2 =
     (let s1 = lower str1; s2 = lower str2
      in if s1 = s2 then 1
         else if str_in s1 s2 \<or> str_in s2 s1 then 9 / 10
         else (let words1 = set (words s1); words2 = set (words s2)
               in if words1 = {} \<or> words2 = {} then 0
                  else (let intersection = card (words1 \<inter> words2);
                            union = card (words1 \<union> words2)
                        in if union > 0 then of_nat intersection / of_nat union else 0)))"

text \<open>
  Python's \<^verbatim>\<open>max(xs, key=f)\<close> and \<^verbatim>\<open>min(xs, key=f)\<close> on a non-empty list \<open>x # xs\<close>:
  the candidate is replaced only by a strictly better element.
\<close>

fun py_max_by :: "('a \<Rightarrow> 'b::linorder) \<Rightarrow> 'a \<Rightarrow> 'a list \<Rightarrow> 'a" where
  "py_max_by key best [] = best"
| "py_max_by key best (x # xs) = py_max_by key (if key best < key x then x else best) xs"

fun py_min_by :: "('a \<Rightarrow> 'b::linorder) \<Rightarrow> 'a \<Rightarrow> 'a list \<Rightarrow> 'a" where
  "py_min_by key best [] = best"
| "py_min_by key best (x # xs) = py_min_by key (if key x < key best then x else best) xs"

text \<open>Decimal text of a natural number, as \<^verbatim>\<open>str\<close> and f-strings print it.\<close>

fun str_of_nat :: "nat \<Rightarrow> string" where
  "str_of_nat n =
     (if n < 10 then [''0123456789'' ! n]
      else str_of_nat (n div 10) @ [''0123456789'' ! (n mod 10)])"

declare str_of_nat.simps [simp del]

text \<open>
  A product record as the engine reads it: the optional \<^verbatim>\<open>product_name\<close> and the
  optional \<^verbatim>\<open>specifications\<close>, a dictionary from category names to dictionaries from
  labels to values.  The other keys of a record are never read.
\<close>

record product =
  product_name :: "string option"
  specifications :: "(string, (string, pyval) dict) dict option"

type_synonym contributions = "(string \<times> pyval) list"
type_synonym features = "(string, contributions) dict"
type_synonym matched = "(string, features) dict"

definition display_name :: "nat \<Rightarrow> product \<Rightarrow> string" where
  \<comment> \<open>\<^verbatim>\<open>data.get("product_name", f"Product {i + 1}")\<close>\<close>
  "display_name i p =
     (case product_name p of Some n \<Rightarrow> n | None \<Rightarrow> ''Product '' @ str_of_nat (i + 1))"

definition flat_key :: "string \<Rightarrow> string \<Rightarrow> string" where
  "flat_key category key = (if category \<noteq> ''other'' then category @ '' - '' @ key else key)"

definition flatten_specs :: "(string, (string, pyval) dict) dict \<Rightarrow> (string, pyval) dict" where
  "flatten_specs specs =
     foldl (\<lambda>flat_specs (category, category_specs).
              foldl (\<lambda>flat_specs (key, v). dict_set flat_specs (flat_key category key) v)
                flat_specs category_specs) [] specs"

definition extract_all_features :: "product list \<Rightarrow> (string, (string, pyval) dict) dict" where
  "extract_all_features products_data =
     foldl (\<lambda>all_features (product_idx, product_data).
              dict_set all_features (display_name product_idx product_data)
                (flatten_specs (case specifications product_data of None \<Rightarrow> [] | Some s \<Rightarrow> s)))
       [] (enumerate 0 products_data)"

definition add_contribution :: "(string, features) dict \<Rightarrow> string \<Rightarrow> string \<Rightarrow> pyval \<Rightarrow>
    (string, features) dict" where
  "add_contribution categorized name feature_key feature_value =
     (let category = categorize_feature feature_key;
          fs = dict_get_default categorized category [];
          contribs = dict_get_default fs feature_key []
      in dict_set categorized category
           (dict_set fs feature_key (contribs @ [(name, feature_value)])))"

definition categorize_all :: "(string, (string, pyval) dict) dict \<Rightarrow> (string, features) dict" where
  "categorize_all all_features =
     foldl (\<lambda>categorized (name, fs).
              foldl (\<lambda>categorized (feature_key, feature_value).
                       add_contribution categorized name feature_key feature_value)
                categorized fs) [] all_features"

definition expected_categories :: "string list" where
  "expected_categories = dict_keys feature_categories @ [''other'']"

text \<open>
  The inner scan of one seed: the other labels of the category, in order, that are not
  yet processed and are similar enough to the seed; each one found is marked processed.
\<close>

fun scan_similar :: "string \<Rightarrow> string list \<Rightarrow> string set \<Rightarrow> string list \<times> string set" where
  "scan_similar feature_key [] processed_keys = ([], processed_keys)"
| "scan_similar feature_key (other_key # rest) processed_keys =
     (if other_key \<noteq> feature_key \<and> other_key \<notin> processed_keys
         \<and> calculate_similarity feature_key other_key \<ge> similarity_threshold
      then (case scan_similar feature_key rest (insert other_key processed_keys) of
              (found, p) \<Rightarrow> (other_key # found, p))
      else scan_similar feature_key rest processed_keys)"

definition canonical_key :: "features \<Rightarrow> string list \<Rightarrow> string" where
  \<comment> \<open>\<^verbatim>\<open>max(similar_features, key=lambda k: len(features.get(k, [])))\<close>; the list is
      never empty, its head is the seed\<close>
  "canonical_key fs similar_features =
     (case similar_features of
        [] \<Rightarrow> []
      | k # ks \<Rightarrow> py_max_by (\<lambda>k. length (dict_get_default fs k [])) k ks)"

text \<open>
  The pass over the labels of one category.  The result lists the clusters
  (\<^verbatim>\<open>similar_features\<close>, seed first) in the order in which the loop builds them.
\<close>

fun cluster_pass :: "features \<Rightarrow> string list \<Rightarrow> string set \<Rightarrow> string list list" where
  "cluster_pass fs [] processed_keys = []"
| "cluster_pass fs (feature_key # rest) processed_keys =
     (if feature_key \<in> processed_keys then cluster_pass fs rest processed_keys
      else (case scan_similar feature_key (dict_keys fs) processed_keys of
              (found, p) \<Rightarrow>
                (feature_key # found)
                # cluster_pass fs rest (insert (canonical_key fs (feature_key # found)) p)))"

definition merged_values :: "features \<Rightarrow> string list \<Rightarrow> contributions" where
  "merged_values fs similar_features =
     concat (map (\<lambda>key. dict_get_default fs key []) similar_features)"

definition organize_by_product :: "contributions \<Rightarrow> (string, pyval list) dict" where
  "organize_by_product merged =
     foldl (\<lambda>product_dict (name, v).
              dict_set product_dict name
                (dict_get_default product_dict name [] @ [v])) [] merged"

definition final_values :: "contributions \<Rightarrow> contributions" where
  \<comment> \<open>\<^verbatim>\<open>(product_name, values[0])\<close> for every product; a list of values is never empty\<close>
  "final_values merged =
     concat (map (\<lambda>(name, vals).
                    (case vals of [] \<Rightarrow> [] | v # _ \<Rightarrow> [(name, v)]))
               (organize_by_product merged))"

text \<open>
  The assignment \<^verbatim>\<open>matched_features[category][canonical_key] = final_values\<close> of every
  cluster; reading \<^verbatim>\<open>matched_features[category]\<close> raises \<^verbatim>\<open>KeyError\<close> when the category
  is not one of the keys set up before the loop.
\<close>

fun store_clusters :: "string \<Rightarrow> features \<Rightarrow> string list list \<Rightarrow> matched \<Rightarrow> py_error + matched" where
  "store_clusters category fs [] matched_features = Inr matched_features"
| "store_clusters category fs (similar_features # rest) matched_features =
     (case dict_get matched_features category of
        None \<Rightarrow> Inl (KeyError category)
      | Some entries \<Rightarrow>
          store_clusters category fs rest
            (dict_set matched_features category
               (dict_set entries (canonical_key fs similar_features)
                  (final_values (merged_values fs similar_features)))))"

fun process_categories :: "(string, features) dict \<Rightarrow> matched \<Rightarrow> py_error + matched" where
  "process_categories [] matched_features = Inr matched_features"
| "process_categories ((category, fs) # rest) matched_features =
     (case store_clusters category fs (cluster_pass fs (dict_keys fs) {}) matched_features of
        Inl e \<Rightarrow> Inl e
      | Inr m \<Rightarrow> process_categories rest m)"

definition match_features :: "product list \<Rightarrow> py_error + matched" where
  "match_features products_data =
     (if products_data = [] then Inr []
      else process_categories (categorize_all (extract_all_features products_data))
             (map (\<lambda>category. (category, [])) expected_categories))"

text \<open>
  The greedy pass in the words of the specification (section 4.2, step 3), to be compared
  with \<open>cluster_pass\<close>: the argument lists the labels that are not yet processed, in
  first-seen order.  The first of them is the seed of the next cluster; every remaining
  label whose similarity to the seed is at least the threshold joins the cluster and is
  thereby processed; the pass goes on with the labels that are left.
\<close>

function spec_greedy_clusters :: "string list \<Rightarrow> string list list" where
  "spec_greedy_clusters [] = []"
| "spec_greedy_clusters (seed # rest) =
     (seed # filter (\<lambda>x. similarity_threshold \<le> calculate_similarity seed x) rest)
     # spec_greedy_clusters
         (filter (\<lambda>x. \<not> similarity_threshold \<le> calculate_similarity seed x) rest)"
  by pat_completeness auto
termination
  by (relation "measure length") (auto simp: less_Suc_eq_le)

text \<open>
  The flattened labels of a product: the keys of \<^verbatim>\<open>flat_specs\<close> that \<^verbatim>\<open>match_features\<close>
  builds for it.
\<close>

definition flat_labels :: "product \<Rightarrow> string list" where
  "flat_labels p =
     dict_keys (flatten_specs (case specifications p of None \<Rightarrow> [] | Some s \<Rightarrow> s))"

section \<open>MatrixGenerator\<close>

text \<open>
  The \<^verbatim>\<open>_comparison\<close> entry of a feature: the dictionary with the keys \<^verbatim>\<open>type\<close>,
  \<^verbatim>\<open>best_product\<close>, \<^verbatim>\<open>normalized_values\<close> and \<^verbatim>\<open>unit\<close>.  A feature of the matrix is
  one dictionary that maps product names to values and \<^verbatim>\<open>"_comparison"\<close> to this
  annotation.
\<close>

record comparison =
  cmp_type :: string
  cmp_best_product :: string
  cmp_normalized_values :: "(string, rat) dict"
  cmp_unit :: "string option"

datatype cell = Value pyval | Comparison comparison

type_synonym feature_entry = "(string, cell) dict"
type_synonym feature_matrix = "(string, (string, feature_entry) dict) dict"

definition comparable_values :: "string \<Rightarrow> contributions \<Rightarrow> (string \<times> rat \<times> string option) list" where
  "comparable_values category product_values =
     concat (map (\<lambda>(name, v).
        (case v of
           PStr s \<Rightarrow>
             (case normalize_for_comparison v category of
                (Some norm_value, u) \<Rightarrow> [(name, norm_value, u)]
              | (None, u) \<Rightarrow> [])
         | _ \<Rightarrow> [])) product_values)"

text \<open>
  The annotation of one feature, if one is stored.  In the source the two label
  overrides also assign \<^verbatim>\<open>"pixels"\<close> and \<^verbatim>\<open>"Hz"\<close> to the local variable
  \<^verbatim>\<open>unit\<close>; that variable is not read afterwards (the stored \<^verbatim>\<open>"unit"\<close> is
  \<^verbatim>\<open>best_product[2]\<close>), so the assignments have no counterpart here.
\<close>

definition comparison_data :: "string \<Rightarrow> string \<Rightarrow> contributions \<Rightarrow> comparison option" where
  "comparison_data category feature_key product_values =
     (if length product_values > 1 \<and> category \<in> set (dict_keys base_units)
      then (case comparable_values category product_values of
              c1 # c2 # cs \<Rightarrow>
                (let highest = py_max_by (\<lambda>x. fst (snd x)) c1 (c2 # cs);
                     (best, comparison_type) =
                       (if category \<in> set [''processor'', ''memory'', ''storage'', ''display'',
                                            ''graphics'']
                        then (Some highest, ''higher_better'')
                        else if category \<in> set [''weight'']
                        then (Some (py_min_by (\<lambda>x. fst (snd x)) c1 (c2 # cs)), ''lower_better'')
                        else (None, ''neutral''));
                     (best, comparison_type) =
                       (if str_in ''resolution'' (lower feature_key)
                        then (Some highest, ''higher_better'')
                        else if str_in ''refresh'' (lower feature_key)
                                \<and> str_in ''rate'' (lower feature_key)
                        then (Some highest, ''higher_better'')
                        else (best, comparison_type))
                 in (case best of
                       None \<Rightarrow> None
                     | Some b \<Rightarrow>
                         Some \<lparr>cmp_type = comparison_type,
                               cmp_best_product = fst b,
                               cmp_normalized_values =
                                 foldl (\<lambda>d (p, v, u). dict_set d p v) [] (c1 # c2 # cs),
                               cmp_unit = snd (snd b)\<rparr>))
            | _ \<Rightarrow> None)
      else None)"

definition feature_entry :: "string \<Rightarrow> string \<Rightarrow> contributions \<Rightarrow> feature_entry" where
  "feature_entry category feature_key product_values =
     (let entry = foldl (\<lambda>e (name, v). dict_set e name (Value v)) [] product_values
      in (case comparison_data category feature_key product_values of
            None \<Rightarrow> entry
          | Some c \<Rightarrow> dict_set entry ''_comparison'' (Comparison c)))"

definition generate_feature_matrix :: "matched \<Rightarrow> feature_matrix" where
  "generate_feature_matrix matched_features =
     foldl (\<lambda>matrix (category, fs).
              dict_set matrix category
                (foldl (\<lambda>m (feature_key, product_values).
                          dict_set m feature_key
                            (feature_entry category feature_key product_values)) [] fs))
       [] matched_features"

text \<open>\<^verbatim>\<open>str.title()\<close> and \<^verbatim>\<open>sep.join(...)\<close>.\<close>

fun title_from :: "bool \<Rightarrow> string \<Rightarrow> string" where
  "title_from prev_cased [] = []"
| "title_from prev_cased (c # cs) =
     (if is_alpha c
      then (if prev_cased then lower_char c else upper_char c) # title_from True cs
      else c # title_from False cs)"

definition title :: "string \<Rightarrow> string" where
  "title s = title_from False s"

fun str_join :: "string \<Rightarrow> string list \<Rightarrow> string" where
  "str_join sep [] = []"
| "str_join sep [x] = x"
| "str_join sep (x # y # ys) = x @ sep @ str_join sep (y # ys)"

definition newline :: string where
  "newline = [CHR 0x0A]"

text \<open>
  A row of the table is a list of Python objects; \<^verbatim>\<open>" | ".join(row)\<close> raises
  \<^verbatim>\<open>TypeError\<close> unless every item is a string.
\<close>

fun cell_str :: "cell \<Rightarrow> string option" where
  "cell_str (Value (PStr s)) = Some s"
| "cell_str c = None"

definition join_cells :: "string \<Rightarrow> cell list \<Rightarrow> py_error + string" where
  "join_cells sep row =
     (if list_all (\<lambda>c. cell_str c \<noteq> None) row
      then Inr (str_join sep (concat (map (\<lambda>c. case cell_str c of None \<Rightarrow> [] | Some s \<Rightarrow> [s]) row)))
      else Inl TypeError)"

text \<open>
  The text that an f-string puts for a value.  The text of an annotation dictionary
  (which contains floating-point numbers) is given by the parameter \<open>repr_comparison\<close>.
\<close>

definition str_of_int :: "int \<Rightarrow> string" where
  "str_of_int i = (if i < 0 then ''-'' @ str_of_nat (nat (- i)) else str_of_nat (nat i))"

fun format_cell :: "(comparison \<Rightarrow> string) \<Rightarrow> cell \<Rightarrow> string" where
  "format_cell repr_comparison (Value (PStr s)) = s"
| "format_cell repr_comparison (Value (PInt i)) = str_of_int i"
| "format_cell repr_comparison (Value (PBool b)) = (if b then ''True'' else ''False'')"
| "format_cell repr_comparison (Value PNone) = ''None''"
| "format_cell repr_comparison (Comparison c) = repr_comparison c"

fun map_err :: "('a \<Rightarrow> py_error + 'b) \<Rightarrow> 'a list \<Rightarrow> py_error + 'b list" where
  "map_err f [] = Inr []"
| "map_err f (x # xs) =
     (case f x of
        Inl e \<Rightarrow> Inl e
      | Inr y \<Rightarrow> (case map_err f xs of Inl e \<Rightarrow> Inl e | Inr ys \<Rightarrow> Inr (y # ys)))"

definition table_cell :: "(comparison \<Rightarrow> string) \<Rightarrow> feature_entry \<Rightarrow> string \<Rightarrow> py_error + cell" where
  \<comment> \<open>the item appended to the row for one product; subscripting a scalar stored under
      \<^verbatim>\<open>"_comparison"\<close> raises \<^verbatim>\<open>TypeError\<close>\<close>
  "table_cell repr_comparison product_values product =
     (let v = dict_get_default product_values product (Value (PStr ''N/A''))
      in (case dict_get product_values ''_comparison'' of
            None \<Rightarrow> Inr v
          | Some (Comparison c) \<Rightarrow>
              Inr (if cmp_best_product c = product
                   then Value (PStr (''**'' @ format_cell repr_comparison v @ ''**''))
                   else v)
          | Some (Value x) \<Rightarrow> Inl TypeError))"

definition feature_row ::
  "(comparison \<Rightarrow> string) \<Rightarrow> string list \<Rightarrow> string \<times> feature_entry \<Rightarrow> py_error + string" where
  "feature_row repr_comparison products kv =
     (case kv of (feature_key, product_values) \<Rightarrow>
        (case map_err (table_cell repr_comparison product_values) products of
           Inl e \<Rightarrow> Inl e
         | Inr cells \<Rightarrow>
             (case join_cells '' | '' (Value (PStr feature_key) # cells) of
                Inl e \<Rightarrow> Inl e
              | Inr s \<Rightarrow> Inr (''| '' @ s @ '' |''))))"

definition category_table ::
  "(comparison \<Rightarrow> string) \<Rightarrow> string list \<Rightarrow> string \<times> (string, feature_entry) dict \<Rightarrow>
     py_error + string list" where
  "category_table repr_comparison products kv =
     (case kv of (category, fs) \<Rightarrow>
        (let header = ''Feature'' # products
         in (case map_err (feature_row repr_comparison products) fs of
               Inl e \<Rightarrow> Inl e
             | Inr rows \<Rightarrow>
                 Inr ([''### '' @ title category, [],
                       ''| '' @ str_join '' | '' header @ '' |'',
                       ''| '' @ str_join '' | '' (replicate (length header) ''---'') @ '' |'']
                      @ rows @ [[]]))))"

definition generate_markdown_table ::
  "(comparison \<Rightarrow> string) \<Rightarrow> feature_matrix \<Rightarrow> string list \<Rightarrow> py_error + string" where
  "generate_markdown_table repr_comparison feature_matrix products =
     (if feature_matrix = [] \<or> products = [] then Inr ''No comparison data available.''
      else (case map_err (category_table repr_comparison products)
                   (filter (\<lambda>(category, fs). fs \<noteq> []) feature_matrix) of
              Inl e \<Rightarrow> Inl e
            | Inr blocks \<Rightarrow> Inr (str_join newline (concat blocks))))"

section \<open>MarkdownTemplateGenerator\<close>

definition generate_header :: "string list \<Rightarrow> string \<Rightarrow> string" where
  "generate_header products comparison_date =
     str_join newline
       [''# Product Comparison: '' @ str_join '', '' products, [],
        ''*Comparison Date: '' @ comparison_date @ ''*'', [], ''---'', []]"

definition generate_introduction :: "string list \<Rightarrow> string" where
  "generate_introduction products =
     str_join newline
       [''## Introduction'', [],
        ''This report provides an objective technical comparison of ''
          @ str_of_nat (length products) @ '' products: '' @ str_join '', '' products @ ''. '',
        ''The comparison is based on verified specifications from multiple sources, with marketing claims filtered out to ensure objectivity.'',
        []]"

definition generate_methodology :: string where
  "generate_methodology =
     str_join newline
       [''## Methodology'', [],
        ''This comparison was generated using an AI-powered product research system that:'',
        [],
        ''1. Collects product specifications from multiple authoritative sources'',
        ''2. Validates technical specifications against industry standards'',
        ''3. Filters out marketing language to focus on factual data'',
        ''4. Normalizes units and formats for accurate comparison'',
        ''5. Generates standardized comparison matrices'',
        [],
        ''All data has been processed to ensure accuracy and objectivity.'',
        []]"

definition generate_comparison_matrix ::
  "(comparison \<Rightarrow> string) \<Rightarrow> feature_matrix \<Rightarrow> string list \<Rightarrow> py_error + string" where
  "generate_comparison_matrix repr_comparison feature_matrix products =
     (case generate_markdown_table repr_comparison feature_matrix products of
        Inl e \<Rightarrow> Inl e
      | Inr matrix_content \<Rightarrow>
          Inr (str_join newline
                 [''## Comparison Matrix'', [],
                  ''The following tables compare key features across all products:'', [],
                  matrix_content]))"

definition highlight_point :: "string \<times> feature_entry \<Rightarrow> py_error + string list" where
  "highlight_point kv =
     (case kv of (feature_key, product_values) \<Rightarrow>
        (case dict_get product_values ''_comparison'' of
           None \<Rightarrow> Inr []
         | Some (Value x) \<Rightarrow> Inl TypeError
         | Some (Comparison c) \<Rightarrow>
             (let u = (case cmp_unit c of None \<Rightarrow> ''None'' | Some s \<Rightarrow> s)
              in Inr (if cmp_type c = ''higher_better''
                      then [''- **'' @ cmp_best_product c @ ''** has the highest ''
                              @ lower feature_key @ '' ('' @ u @ '')'']
                      else if cmp_type c = ''lower_better''
                      then [''- **'' @ cmp_best_product c @ ''** has the lowest ''
                              @ lower feature_key @ '' ('' @ u @ '')'']
                      else []))))"

definition generate_feature_highlights :: "feature_matrix \<Rightarrow> py_error + string" where
  "generate_feature_highlights feature_matrix =
     (case map_err highlight_point (concat (map snd feature_matrix)) of
        Inl e \<Rightarrow> Inl e
      | Inr points \<Rightarrow>
          (let highlight_points = concat points
           in Inr (str_join newline
                     ([''## Feature Highlights'', []]
                      @ (if highlight_points \<noteq> [] then highlight_points
                         else [''No specific highlights identified in the comparison.''])
                      @ [[]]))))"

definition generate_conclusion :: string where
  "generate_conclusion =
     str_join newline
       [''## Conclusion'', [],
        ''This comparison provides an objective overview of the technical specifications for the compared products. '',
        ''The data presented is factual and free from marketing claims, allowing for an unbiased assessment of each product's capabilities.'',
        [],
        ''For specific use cases, consider which features are most important for your needs when making a decision.'',
        []]"

definition template_sections :: "string list" where
  "template_sections =
     [''header'', ''introduction'', ''methodology'', ''comparison_matrix'',
      ''feature_highlights'', ''conclusion'']"

definition section_content ::
  "(comparison \<Rightarrow> string) \<Rightarrow> string list \<Rightarrow> feature_matrix \<Rightarrow> string \<Rightarrow> string \<Rightarrow>
     py_error + string" where
  "section_content repr_comparison products feature_matrix comparison_date section =
     (if section = ''comparison_matrix''
      then generate_comparison_matrix repr_comparison feature_matrix products
      else if section = ''header'' then Inr (generate_header products comparison_date)
      else if section = ''introduction'' then Inr (generate_introduction products)
      else if section = ''feature_highlights'' then generate_feature_highlights feature_matrix
      else if section = ''conclusion'' then Inr generate_conclusion
      else Inr generate_methodology)"

definition generate_template ::
  "(comparison \<Rightarrow> string) \<Rightarrow> string list \<Rightarrow> feature_matrix \<Rightarrow> string \<Rightarrow> string list option \<Rightarrow>
     py_error + string" where
  "generate_template repr_comparison products feature_matrix comparison_date sections =
     (case map_err (section_content repr_comparison products feature_matrix comparison_date)
             (filter (\<lambda>section. section \<in> set template_sections)
                (case sections of None \<Rightarrow> template_sections | Some l \<Rightarrow> l)) of
        Inl e \<Rightarrow> Inl e
      | Inr markdown \<Rightarrow> Inr (str_join newline markdown))"

section \<open>ComparisonEngine\<close>

text \<open>
  The argument \<^verbatim>\<open>products_data\<close> of \<^verbatim>\<open>compare_products\<close> is a list of product
  records, or another Python object that is neither iterable nor sized (\<^verbatim>\<open>None\<close>, an
  integer): \<^verbatim>\<open>enumerate\<close> and \<^verbatim>\<open>len\<close> raise \<^verbatim>\<open>TypeError\<close> on such an object.
\<close>

datatype products_arg = ProductList "product list" | NoneObject | IntObject int

definition py_len :: "products_arg \<Rightarrow> py_error + nat" where
  "py_len a = (case a of ProductList ps \<Rightarrow> Inr (length ps) | _ \<Rightarrow> Inl TypeError)"

text \<open>The body of the \<^verbatim>\<open>try\<close> block of \<^verbatim>\<open>compare_products\<close>.\<close>

definition compare_products_body ::
  "(comparison \<Rightarrow> string) \<Rightarrow> products_arg \<Rightarrow> string \<Rightarrow> py_error + string" where
  "compare_products_body repr_comparison products_data comparison_date =
     (case products_data of
        ProductList ps \<Rightarrow>
          (let product_names = map (\<lambda>(i, data). display_name i data) (enumerate 0 ps)
           in (case match_features ps of
                 Inl e \<Rightarrow> Inl e
               | Inr matched_features \<Rightarrow>
                   generate_template repr_comparison product_names
                     (generate_feature_matrix matched_features) comparison_date None))
      | _ \<Rightarrow> Inl TypeError)"

text \<open>
  \<^verbatim>\<open>compare_products\<close>: an exception of the body is caught, and the handler builds the
  \<^verbatim>\<open>DataProcessingError\<close> with \<^verbatim>\<open>len(products_data)\<close> in its details, logs it and
  raises it.  An exception raised inside the handler replaces the one being handled.
\<close>

definition compare_products ::
  "(comparison \<Rightarrow> string) \<Rightarrow> products_arg \<Rightarrow> string \<Rightarrow> py_error + string" where
  "compare_products repr_comparison products_data comparison_date =
     (case compare_products_body repr_comparison products_data comparison_date of
        Inr markdown_report \<Rightarrow> Inr markdown_report
      | Inl e \<Rightarrow>
          (case py_len products_data of
             Inl e' \<Rightarrow> Inl e'
           | Inr n \<Rightarrow> Inl (DataProcessingError e n)))"

section \<open>Evaluation of the definitions\<close>

lemmas char_defs = is_digit_def is_lower_def is_upper_def is_alpha_def is_word_char_def is_space_def

lemmas regex_defs = re_many_def re_number_def re_value_unit_def re_value_letters_def first_match_def

lemmas float_defs = py_float_def nat_of_digits_def digit_value_def

lemmas unit_defs = extract_value_and_unit_def value_unit_patterns_def conversion_factors_def
  base_units_def dict_keys_def dict_get_default_def convert_to_base_unit_def
  normalize_for_comparison_def

lemma normalize_display_bare:
  "normalize_for_comparison (PStr ''1920'') ''display'' = (Some 1920, Some ''inch'')"
  "normalize_for_comparison (PStr ''2560'') ''display'' = (Some 2560, Some ''inch'')"
  "normalize_for_comparison (PStr ''120'') ''display'' = (Some 120, Some ''inch'')"
  "normalize_for_comparison (PStr ''60'') ''display'' = (Some 60, Some ''inch'')"
  by (simp_all add: unit_defs regex_defs char_defs float_defs)

lemma lower_labels:
  "lower ''display - Resolution'' = ''display - resolution''"
  "lower ''display - Refresh Rate'' = ''display - refresh rate''"
  by (simp_all add: lower_def lower_char_def)

section \<open>Unit normalization on the documented examples\<close>

text \<open>
  Claim C8.  \<^verbatim>\<open>normalize_for_comparison("1TB", "storage")\<close> is \<^verbatim>\<open>(1024.0, "GB")\<close>,
  \<^verbatim>\<open>normalize_for_comparison("512MB", "memory")\<close> is \<^verbatim>\<open>(0.5, "GB")\<close>, and
  \<^verbatim>\<open>normalize_for_comparison("16.5cm", "display")\<close> has the unit \<^verbatim>\<open>"inch"\<close> and a value
  (16.5 / 2.54, that is 825 / 127) within 0.01 of 6.5.
\<close>

theorem unit_round_trip:
  "normalize_for_comparison (PStr ''1TB'') ''storage'' = (Some 1024, Some ''GB'')
   \<and> normalize_for_comparison (PStr ''512MB'') ''memory'' = (Some (1 / 2), Some ''GB'')
   \<and> normalize_for_comparison (PStr ''16.5cm'') ''display'' = (Some (825 / 127), Some ''inch'')
   \<and> \<bar>(825 / 127 :: rat) - 65 / 10\<bar> \<le> 1 / 100"
  by (simp add: unit_defs regex_defs char_defs float_defs)

section \<open>Extraction without a conversion table\<close>

text \<open>
  Claim C6.  The claim wants a bare number to be returned with no unit also for a
  category that has no pattern of its own.  For such a category the source returns right
  after the generic pattern (digits followed by letters) has failed, so the text
  \<^verbatim>\<open>"1920"\<close> with the category \<^verbatim>\<open>"resolution"\<close> gives \<^verbatim>\<open>(None, None)\<close>, while the same
  text with the category \<^verbatim>\<open>"display"\<close>, which has a pattern, gives the number and no unit.
\<close>

theorem extract_bare_number_without_pattern:
  "extract_value_and_unit (PStr ''1920'') ''resolution'' = (None, None)
   \<and> extract_value_and_unit (PStr ''1920'') ''display'' = (Some 1920, None)"
  by (simp add: unit_defs regex_defs char_defs float_defs)

section \<open>The unit stored for resolution and refresh-rate labels\<close>

text \<open>
  Claim C3.  The claim wants the stored unit of a feature whose label contains
  "resolution" to be \<^verbatim>\<open>"pixels"\<close>, and \<^verbatim>\<open>"Hz"\<close> for a label with "refresh" and "rate".
  The stored unit is the unit of the best normalized value: for two display features
  with bare numbers it is the base unit of the category, \<^verbatim>\<open>"inch"\<close>, in both cases.
\<close>

theorem resolution_unit_stored:
  "generate_feature_matrix
     [(''display'', [(''display - Resolution'', [(''A'', PStr ''1920''), (''B'', PStr ''2560'')])])]
   = [(''display'', [(''display - Resolution'',
        [(''A'', Value (PStr ''1920'')), (''B'', Value (PStr ''2560'')),
         (''_comparison'', Comparison \<lparr>cmp_type = ''higher_better'', cmp_best_product = ''B'',
            cmp_normalized_values = [(''A'', 1920), (''B'', 2560)],
            cmp_unit = Some ''inch''\<rparr>)])])]
   \<and> generate_feature_matrix
     [(''display'', [(''display - Refresh Rate'', [(''A'', PStr ''120''), (''B'', PStr ''60'')])])]
   = [(''display'', [(''display - Refresh Rate'',
        [(''A'', Value (PStr ''120'')), (''B'', Value (PStr ''60'')),
         (''_comparison'', Comparison \<lparr>cmp_type = ''higher_better'', cmp_best_product = ''A'',
            cmp_normalized_values = [(''A'', 120), (''B'', 60)],
            cmp_unit = Some ''inch''\<rparr>)])])]"
  by (simp add: generate_feature_matrix_def feature_entry_def comparison_data_def
      comparable_values_def normalize_display_bare lower_labels base_units_def dict_keys_def)

section \<open>Exceptions of compare_products\<close>

text \<open>
  Claim C2.  The claim wants every exception of \<^verbatim>\<open>compare_products\<close> to be the
  data-processing failure with the product count, also for a product list that is not
  iterable.  For \<^verbatim>\<open>None\<close> or an integer the handler itself fails when it evaluates
  \<^verbatim>\<open>len(products_data)\<close>, and the caller receives that \<^verbatim>\<open>TypeError\<close>.
\<close>

theorem compare_products_not_iterable:
  "compare_products repr_comparison NoneObject comparison_date = Inl TypeError
   \<and> compare_products repr_comparison (IntObject i) comparison_date = Inl TypeError"
  by (simp add: compare_products_def compare_products_body_def py_len_def)

text \<open>
  Claim C5.  The claim wants a report for every well-formed product list, also when a
  specification value is not a string.  A single product whose RAM is the integer 8
  reaches the table with the integer in its row, \<^verbatim>\<open>" | ".join(row)\<close> raises
  \<^verbatim>\<open>TypeError\<close>, and \<^verbatim>\<open>compare_products\<close> raises the data-processing failure.
\<close>

theorem compare_products_integer_value:
  "compare_products repr_comparison
     (ProductList [\<lparr>product_name = Some ''A'',
                    specifications = Some [(''memory'', [(''RAM'', PInt 8)])]\<rparr>])
     comparison_date
   = Inl (DataProcessingError TypeError 1)"
  by code_simp

section \<open>Python's max and min with a key\<close>

lemma py_max_by_first:
  "\<exists>pre post. x # xs = pre @ py_max_by key x xs # post
     \<and> (\<forall>y\<in>set pre. key y < key (py_max_by key x xs))
     \<and> (\<forall>y\<in>set post. key y \<le> key (py_max_by key x xs))"
proof (induction xs arbitrary: x)
  case Nil
  show ?case by (intro exI [where x = "[]"]) simp
next
  case (Cons y ys)
  show ?case
  proof (cases "key x < key y")
    case True
    then have eq: "py_max_by key x (y # ys) = py_max_by key y ys" by simp
    from Cons.IH [of y] obtain pre post where d: "y # ys = pre @ py_max_by key y ys # post"
      and l: "\<forall>z\<in>set pre. key z < key (py_max_by key y ys)"
      and r: "\<forall>z\<in>set post. key z \<le> key (py_max_by key y ys)" by blast
    have "y \<in> set (y # ys)" by simp
    then have "y \<in> set pre \<or> y = py_max_by key y ys \<or> y \<in> set post"
      unfolding d by auto
    then have "key y \<le> key (py_max_by key y ys)" using l r by (auto simp: less_imp_le)
    then have "key x < key (py_max_by key y ys)" using True by simp
    then show ?thesis unfolding eq
      using d l r by (intro exI [where x = "x # pre"] exI [where x = post]) simp
  next
    case False
    then have eq: "py_max_by key x (y # ys) = py_max_by key x ys" by simp
    from Cons.IH [of x] obtain pre post where d: "x # ys = pre @ py_max_by key x ys # post"
      and l: "\<forall>z\<in>set pre. key z < key (py_max_by key x ys)"
      and r: "\<forall>z\<in>set post. key z \<le> key (py_max_by key x ys)" by blast
    show ?thesis
    proof (cases pre)
      case Nil
      have e: "x # ys = py_max_by key x ys # post" using d unfolding Nil append_Nil .
      have m: "py_max_by key x ys = x" by (metis e list.inject)
      have p: "post = ys" by (metis e list.inject)
      show ?thesis unfolding eq
        using m p r False by (intro exI [where x = "[]"] exI [where x = "y # ys"]) simp
    next
      case (Cons p pre')
      have e: "x # ys = p # (pre' @ py_max_by key x ys # post)"
        using d unfolding Cons append_Cons .
      have px: "p = x" by (metis e list.inject)
      have ys: "ys = pre' @ py_max_by key x ys # post" by (metis e list.inject)
      have "key x < key (py_max_by key x ys)" using l Cons px by simp
      then have "key y < key (py_max_by key x ys)" using False by simp
      then show ?thesis unfolding eq
        using ys l r Cons px
        by (intro exI [where x = "x # y # pre'"] exI [where x = post]) simp
    qed
  qed
qed

lemma py_min_by_first:
  "\<exists>pre post. x # xs = pre @ py_min_by key x xs # post
     \<and> (\<forall>y\<in>set pre. key (py_min_by key x xs) < key y)
     \<and> (\<forall>y\<in>set post. key (py_min_by key x xs) \<le> key y)"
proof (induction xs arbitrary: x)
  case Nil
  show ?case by (intro exI [where x = "[]"]) simp
next
  case (Cons y ys)
  show ?case
  proof (cases "key y < key x")
    case True
    then have eq: "py_min_by key x (y # ys) = py_min_by key y ys" by simp
    from Cons.IH [of y] obtain pre post where d: "y # ys = pre @ py_min_by key y ys # post"
      and l: "\<forall>z\<in>set pre. key (py_min_by key y ys) < key z"
      and r: "\<forall>z\<in>set post. key (py_min_by key y ys) \<le> key z" by blast
    have "y \<in> set (y # ys)" by simp
    then have "y \<in> set pre \<or> y = py_min_by key y ys \<or> y \<in> set post"
      unfolding d by auto
    then have "key (py_min_by key y ys) \<le> key y" using l r by (auto simp: less_imp_le)
    then have "key (py_min_by key y ys) < key x" using True by simp
    then show ?thesis unfolding eq
      using d l r by (intro exI [where x = "x # pre"] exI [where x = post]) simp
  next
    case False
    then have eq: "py_min_by key x (y # ys) = py_min_by key x ys" by simp
    from Cons.IH [of x] obtain pre post where d: "x # ys = pre @ py_min_by key x ys # post"
      and l: "\<forall>z\<in>set pre. key (py_min_by key x ys) < key z"
      and r: "\<forall>z\<in>set post. key (py_min_by key x ys) \<le> key z" by blast
    show ?thesis
    proof (cases pre)
      case Nil
      have e: "x # ys = py_min_by key x ys # post" using d unfolding Nil append_Nil .
      have m: "py_min_by key x ys = x" by (metis e list.inject)
      have p: "post = ys" by (metis e list.inject)
      show ?thesis unfolding eq
        using m p r False by (intro exI [where x = "[]"] exI [where x = "y # ys"]) simp
    next
      case (Cons p pre')
      have e: "x # ys = p # (pre' @ py_min_by key x ys # post)"
        using d unfolding Cons append_Cons .
      have px: "p = x" by (metis e list.inject)
      have ys: "ys = pre' @ py_min_by key x ys # post" by (metis e list.inject)
      have "key (py_min_by key x ys) < key x" using l Cons px by simp
      then have "key (py_min_by key x ys) < key y" using False by simp
      then show ?thesis unfolding eq
        using ys l r Cons px
        by (intro exI [where x = "x # y # pre'"] exI [where x = post]) simp
    qed
  qed
qed
lemma normalize_memory_gb:
  "normalize_for_comparison (PStr ''8GB'') ''memory'' = (Some 8, Some ''GB'')"
  "normalize_for_comparison (PStr ''12GB'') ''memory'' = (Some 12, Some ''GB'')"
  by (simp_all add: unit_defs regex_defs char_defs float_defs)

lemma comparison_data_cases:
  assumes "comparison_data category feature_key product_values = Some c"
  obtains c1 c2 cs where "comparable_values category product_values = c1 # c2 # cs"
    and "(cmp_type c = ''higher_better''
          \<and> cmp_best_product c = fst (py_max_by (\<lambda>x. fst (snd x)) c1 (c2 # cs)))
        \<or> (cmp_type c = ''lower_better''
          \<and> cmp_best_product c = fst (py_min_by (\<lambda>x. fst (snd x)) c1 (c2 # cs)))"
  using assms unfolding comparison_data_def
  by (auto split: if_splits list.splits option.splits simp: Let_def)

lemma comparison_data_memory_tie:
  "comparison_data ''memory'' ''RAM''
     [(''A'', PStr ''8GB''), (''B'', PStr ''12GB''), (''C'', PStr ''12GB'')]
   = Some \<lparr>cmp_type = ''higher_better'', cmp_best_product = ''B'',
            cmp_normalized_values = [(''A'', 8), (''B'', 12), (''C'', 12)],
            cmp_unit = Some ''GB''\<rparr>"
  by (simp add: comparison_data_def comparable_values_def normalize_memory_gb base_units_def
      dict_keys_def lower_def lower_char_def)

section \<open>The best product of a feature\<close>

text \<open>
  Claim C7.  \<^verbatim>\<open>compare_values("8GB", "12GB", "memory")\<close> is \<^verbatim>\<open>(8.0, 12.0, "GB")\<close>; in the
  matrix of a memory feature with the values \<^verbatim>\<open>"12GB"\<close> and \<^verbatim>\<open>"8GB"\<close> the product with
  \<^verbatim>\<open>"12GB"\<close> is the best product, with the policy \<^verbatim>\<open>higher_better\<close>; and whenever an
  annotation is stored, its best product is the first of the comparable values whose
  normalized value is the greatest (policy \<^verbatim>\<open>higher_better\<close>) or the least (policy
  \<^verbatim>\<open>lower_better\<close>): every earlier candidate is strictly worse, no later one is better.
\<close>

theorem best_product_stable_argmax:
  "compare_values (PStr ''8GB'') (PStr ''12GB'') ''memory'' = (Some 8, Some 12, Some ''GB'')
   \<and> generate_feature_matrix
        [(''memory'', [(''RAM'', [(''A'', PStr ''12GB''), (''B'', PStr ''8GB'')])])]
      = [(''memory'', [(''RAM'',
           [(''A'', Value (PStr ''12GB'')), (''B'', Value (PStr ''8GB'')),
            (''_comparison'', Comparison \<lparr>cmp_type = ''higher_better'', cmp_best_product = ''A'',
               cmp_normalized_values = [(''A'', 12), (''B'', 8)], cmp_unit = Some ''GB''\<rparr>)])])]
   \<and> (comparison_data category feature_key product_values = Some c \<longrightarrow>
        (\<exists>pre b post.
           comparable_values category product_values = pre @ b # post
           \<and> cmp_best_product c = fst b
           \<and> (cmp_type c = ''higher_better'' \<or> cmp_type c = ''lower_better'')
           \<and> (cmp_type c = ''higher_better'' \<longrightarrow>
                (\<forall>y\<in>set pre. fst (snd y) < fst (snd b)) \<and> (\<forall>y\<in>set post. fst (snd y) \<le> fst (snd b)))
           \<and> (cmp_type c = ''lower_better'' \<longrightarrow>
                (\<forall>y\<in>set pre. fst (snd b) < fst (snd y)) \<and> (\<forall>y\<in>set post. fst (snd b) \<le> fst (snd y)))))"
proof (intro conjI impI)
  show "compare_values (PStr ''8GB'') (PStr ''12GB'') ''memory'' = (Some 8, Some 12, Some ''GB'')"
    by (simp add: compare_values_def normalize_memory_gb)
next
  show "generate_feature_matrix
        [(''memory'', [(''RAM'', [(''A'', PStr ''12GB''), (''B'', PStr ''8GB'')])])]
      = [(''memory'', [(''RAM'',
           [(''A'', Value (PStr ''12GB'')), (''B'', Value (PStr ''8GB'')),
            (''_comparison'', Comparison \<lparr>cmp_type = ''higher_better'', cmp_best_product = ''A'',
               cmp_normalized_values = [(''A'', 12), (''B'', 8)], cmp_unit = Some ''GB''\<rparr>)])])]"
    by (simp add: generate_feature_matrix_def feature_entry_def comparison_data_def
        comparable_values_def normalize_memory_gb base_units_def dict_keys_def lower_def
        lower_char_def)
next
  assume a: "comparison_data category feature_key product_values = Some c"
  then obtain c1 c2 cs where cv: "comparable_values category product_values = c1 # c2 # cs"
    and k: "(cmp_type c = ''higher_better''
          \<and> cmp_best_product c = fst (py_max_by (\<lambda>x. fst (snd x)) c1 (c2 # cs)))
        \<or> (cmp_type c = ''lower_better''
          \<and> cmp_best_product c = fst (py_min_by (\<lambda>x. fst (snd x)) c1 (c2 # cs)))"
    by (rule comparison_data_cases)
  from k show "\<exists>pre b post.
           comparable_values category product_values = pre @ b # post
           \<and> cmp_best_product c = fst b
           \<and> (cmp_type c = ''higher_better'' \<or> cmp_type c = ''lower_better'')
           \<and> (cmp_type c = ''higher_better'' \<longrightarrow>
                (\<forall>y\<in>set pre. fst (snd y) < fst (snd b)) \<and> (\<forall>y\<in>set post. fst (snd y) \<le> fst (snd b)))
           \<and> (cmp_type c = ''lower_better'' \<longrightarrow>
                (\<forall>y\<in>set pre. fst (snd b) < fst (snd y)) \<and> (\<forall>y\<in>set post. fst (snd b) \<le> fst (snd y)))"
  proof
    assume h: "cmp_type c = ''higher_better''
          \<and> cmp_best_product c = fst (py_max_by (\<lambda>x. fst (snd x)) c1 (c2 # cs))"
    from py_max_by_first [of c1 "c2 # cs" "\<lambda>x. fst (snd x)"] obtain pre post where
      "c1 # c2 # cs = pre @ py_max_by (\<lambda>x. fst (snd x)) c1 (c2 # cs) # post"
      "\<forall>y\<in>set pre. fst (snd y) < fst (snd (py_max_by (\<lambda>x. fst (snd x)) c1 (c2 # cs)))"
      "\<forall>y\<in>set post. fst (snd y) \<le> fst (snd (py_max_by (\<lambda>x. fst (snd x)) c1 (c2 # cs)))"
      by blast
    with h cv show ?thesis
      by (intro exI [where x = pre] exI [where x = post]
          exI [where x = "py_max_by (\<lambda>x. fst (snd x)) c1 (c2 # cs)"]) simp
  next
    assume h: "cmp_type c = ''lower_better''
          \<and> cmp_best_product c = fst (py_min_by (\<lambda>x. fst (snd x)) c1 (c2 # cs))"
    from py_min_by_first [of c1 "c2 # cs" "\<lambda>x. fst (snd x)"] obtain pre post where
      "c1 # c2 # cs = pre @ py_min_by (\<lambda>x. fst (snd x)) c1 (c2 # cs) # post"
      "\<forall>y\<in>set pre. fst (snd (py_min_by (\<lambda>x. fst (snd x)) c1 (c2 # cs))) < fst (snd y)"
      "\<forall>y\<in>set post. fst (snd (py_min_by (\<lambda>x. fst (snd x)) c1 (c2 # cs))) \<le> fst (snd y)"
      by blast
    with h cv show ?thesis
      by (intro exI [where x = pre] exI [where x = post]
          exI [where x = "py_min_by (\<lambda>x. fst (snd x)) c1 (c2 # cs)"]) simp
  qed
qed

theorem best_product_stable_argmax_witness:
  "comparison_data ''memory'' ''RAM''
     [(''A'', PStr ''8GB''), (''B'', PStr ''12GB''), (''C'', PStr ''12GB'')]
   = Some \<lparr>cmp_type = ''higher_better'', cmp_best_product = ''B'',
            cmp_normalized_values = [(''A'', 8), (''B'', 12), (''C'', 12)],
            cmp_unit = Some ''GB''\<rparr>
   \<and> (\<exists>pre b post.
         comparable_values ''memory''
           [(''A'', PStr ''8GB''), (''B'', PStr ''12GB''), (''C'', PStr ''12GB'')] = pre @ b # post
         \<and> fst b = ''B''
         \<and> (\<forall>y\<in>set pre. fst (snd y) < fst (snd b))
         \<and> (\<forall>y\<in>set post. fst (snd y) \<le> fst (snd b)))"
  using best_product_stable_argmax [of "''memory''" "''RAM''"
      "[(''A'', PStr ''8GB''), (''B'', PStr ''12GB''), (''C'', PStr ''12GB'')]"
      "\<lparr>cmp_type = ''higher_better'', cmp_best_product = ''B'',
        cmp_normalized_values = [(''A'', 8), (''B'', 12), (''C'', 12)],
        cmp_unit = Some ''GB''\<rparr>"]
    comparison_data_memory_tie
  by simp

section \<open>Dictionaries and the keys of the matched features\<close>

lemma dict_set_map_fst:
  "map fst (dict_set d k v) = (if k \<in> set (map fst d) then map fst d else map fst d @ [k])"
  by (induction d) (force simp: image_iff split: if_splits)+

lemma dict_set_keys: "fst ` set (dict_set d k v) = insert k (fst ` set d)"
proof -
  have "set (map fst (dict_set d k v)) = insert k (set (map fst d))"
    unfolding dict_set_map_fst by auto
  then show ?thesis by simp
qed

lemma dict_set_keys_present: "k \<in> fst ` set d \<Longrightarrow> map fst (dict_set d k v) = map fst d"
  unfolding dict_set_map_fst by simp

lemma dict_set_mem: "(k, v) \<in> set (dict_set d k' v') \<Longrightarrow> (k, v) \<in> set d \<or> (k = k' \<and> v = v')"
  by (induction d) (auto split: if_splits)

lemma dict_get_None: "dict_get d k = None \<longleftrightarrow> k \<notin> fst ` set d"
  by (induction d) (force simp: image_iff split: if_splits)+

lemma dict_get_mem: "dict_get d k = Some v \<Longrightarrow> (k, v) \<in> set d"
  by (induction d) (auto split: if_splits)

lemma foldl_dict_set_mem:
  "(k, v) \<in> set (foldl (\<lambda>d x. dict_set d (f x) (g x)) d0 xs)
   \<Longrightarrow> (k, v) \<in> set d0 \<or> (\<exists>x\<in>set xs. k = f x \<and> v = g x)"
proof (induction xs arbitrary: d0)
  case Nil
  then show ?case by simp
next
  case (Cons x xs)
  from Cons.IH [of "dict_set d0 (f x) (g x)"] Cons.prems
  have "(k, v) \<in> set (dict_set d0 (f x) (g x)) \<or> (\<exists>y\<in>set xs. k = f y \<and> v = g y)" by simp
  then show ?case using dict_set_mem [of k v d0 "f x" "g x"] by auto
qed

lemma foldl_dict_set_keys:
  "fst ` set (foldl (\<lambda>d x. dict_set d (f x) (g d x)) d0 xs) = fst ` set d0 \<union> f ` set xs"
proof (induction xs arbitrary: d0)
  case Nil
  show ?case by simp
next
  case (Cons x xs)
  show ?case by (simp add: Cons.IH dict_set_keys)
qed

lemma store_clusters_keys:
  "store_clusters category fs cls m = Inr m' \<Longrightarrow> map fst m' = map fst m"
proof (induction cls arbitrary: m)
  case Nil
  then show ?case by simp
next
  case (Cons cl cls)
  from Cons.prems obtain entries where g: "dict_get m category = Some entries"
    by (auto split: option.splits)
  let ?m1 = "dict_set m category
      (dict_set entries (canonical_key fs cl) (final_values (merged_values fs cl)))"
  from Cons.prems g have "store_clusters category fs cls ?m1 = Inr m'" by simp
  then have "map fst m' = map fst ?m1" by (rule Cons.IH)
  moreover have "category \<in> fst ` set m" using g dict_get_None [of m category] by auto
  ultimately show ?case by (simp add: dict_set_keys_present)
qed

lemma store_clusters_ok:
  "category \<in> fst ` set m \<Longrightarrow> \<exists>m'. store_clusters category fs cls m = Inr m'"
proof (induction cls arbitrary: m)
  case Nil
  show ?case by simp
next
  case (Cons cl cls)
  then obtain entries where g: "dict_get m category = Some entries"
    using dict_get_None [of m category] by auto
  let ?m1 = "dict_set m category
      (dict_set entries (canonical_key fs cl) (final_values (merged_values fs cl)))"
  have "category \<in> fst ` set ?m1" by (simp add: dict_set_keys)
  then have "\<exists>m'. store_clusters category fs cls ?m1 = Inr m'" by (rule Cons.IH)
  then show ?case using g by simp
qed

lemma process_categories_keys:
  "process_categories cz m = Inr m' \<Longrightarrow> map fst m' = map fst m"
proof (induction cz arbitrary: m)
  case Nil
  then show ?case by simp
next
  case (Cons a cz)
  obtain category fs where a: "a = (category, fs)" by (cases a)
  from Cons.prems a obtain m1 where
    s: "store_clusters category fs (cluster_pass fs (dict_keys fs) {}) m = Inr m1"
    and p: "process_categories cz m1 = Inr m'"
    by (auto split: sum.splits)
  from p have "map fst m' = map fst m1" by (rule Cons.IH)
  then show ?case using store_clusters_keys [OF s] by simp
qed

lemma process_categories_ok:
  "fst ` set cz \<subseteq> fst ` set m \<Longrightarrow> \<exists>m'. process_categories cz m = Inr m'"
proof (induction cz arbitrary: m)
  case Nil
  show ?case by simp
next
  case (Cons a cz)
  obtain category fs where a: "a = (category, fs)" by (cases a)
  then have "category \<in> fst ` set m" using Cons.prems by auto
  then obtain m1 where
    s: "store_clusters category fs (cluster_pass fs (dict_keys fs) {}) m = Inr m1"
    using store_clusters_ok by blast
  have "map fst m1 = map fst m" using s by (rule store_clusters_keys)
  then have "fst ` set m1 = fst ` set m" by (metis set_map)
  then have "fst ` set cz \<subseteq> fst ` set m1" using Cons.prems by auto
  then have "\<exists>m'. process_categories cz m1 = Inr m'" by (rule Cons.IH)
  then show ?case using a s by simp
qed

lemma foldl_dict_set_mem2:
  "(k, v) \<in> set (foldl (\<lambda>d (a, b). dict_set d (f a b) (g a b)) d0 xs)
   \<Longrightarrow> (k, v) \<in> set d0 \<or> (\<exists>(a, b)\<in>set xs. k = f a b \<and> v = g a b)"
  using foldl_dict_set_mem [of k v "\<lambda>x. f (fst x) (snd x)" "\<lambda>x. g (fst x) (snd x)" d0 xs]
  by (simp add: case_prod_unfold)

lemma add_contribution_keys:
  "fst ` set (add_contribution cz name key v) = insert (categorize_feature key) (fst ` set cz)"
  by (simp add: add_contribution_def Let_def dict_set_keys)

lemma categorize_product_keys:
  "fst ` set (foldl (\<lambda>cz (key, v). add_contribution cz name key v) cz fs)
   = fst ` set cz \<union> categorize_feature ` fst ` set fs"
proof (induction fs arbitrary: cz)
  case Nil
  show ?case by simp
next
  case (Cons a fs)
  show ?case by (cases a) (simp add: Cons.IH add_contribution_keys)
qed

lemma categorize_fold_keys:
  "fst ` set (foldl (\<lambda>cz (name, fs).
        foldl (\<lambda>cz (key, v). add_contribution cz name key v) cz fs) cz all)
   = fst ` set cz \<union> (\<Union>x\<in>set all. categorize_feature ` fst ` set (snd x))"
proof (induction all arbitrary: cz)
  case Nil
  show ?case by simp
next
  case (Cons a all)
  show ?case by (cases a) (auto simp: Cons.IH categorize_product_keys)
qed

lemma categorize_all_keys:
  "fst ` set (categorize_all all) = (\<Union>x\<in>set all. categorize_feature ` fst ` set (snd x))"
  unfolding categorize_all_def by (simp add: categorize_fold_keys)

lemma extract_all_features_mem:
  assumes "(name, fs) \<in> set (extract_all_features ps)"
  shows "\<exists>p\<in>set ps. fst ` set fs = set (flat_labels p)"
proof -
  from assms foldl_dict_set_mem2 [of name fs "\<lambda>i p. display_name i p"
      "\<lambda>i p. flatten_specs (case specifications p of None \<Rightarrow> [] | Some s \<Rightarrow> s)" "[]"
      "enumerate 0 ps"]
  obtain i p where ip: "(i, p) \<in> set (enumerate 0 ps)"
    and fs: "fs = flatten_specs (case specifications p of None \<Rightarrow> [] | Some s \<Rightarrow> s)"
    unfolding extract_all_features_def by auto
  from ip have "p \<in> set ps" by (auto simp: in_set_enumerate_eq)
  then show ?thesis using fs by (auto simp: flat_labels_def dict_keys_def)
qed

lemma categorized_in_vocabulary:
  assumes "\<forall>p\<in>set ps. \<forall>l\<in>set (flat_labels p). categorize_feature l \<in> set expected_categories"
  shows "fst ` set (categorize_all (extract_all_features ps)) \<subseteq> set expected_categories"
proof
  fix c
  assume "c \<in> fst ` set (categorize_all (extract_all_features ps))"
  then obtain name fs l v where m: "(name, fs) \<in> set (extract_all_features ps)"
    and lv: "(l, v) \<in> set fs" and c: "c = categorize_feature l"
    unfolding categorize_all_keys by auto
  from lv have l: "l \<in> fst ` set fs" by force
  from extract_all_features_mem [OF m] obtain p where "p \<in> set ps"
    "fst ` set fs = set (flat_labels p)" by blast
  then show "c \<in> set expected_categories" using assms l c by auto
qed

lemma expected_categories_eq:
  "expected_categories =
     [''processor'', ''memory'', ''storage'', ''display'', ''camera'', ''battery'',
      ''dimensions'', ''connectivity'', ''os'', ''price'', ''graphics'', ''other'']"
  by (simp add: expected_categories_def feature_categories_def dict_keys_def)

lemma match_features_keys:
  assumes "match_features ps = Inr m" "ps \<noteq> []"
  shows "dict_keys m = expected_categories"
proof -
  from assms have "process_categories (categorize_all (extract_all_features ps))
      (map (\<lambda>category. (category, [])) expected_categories) = Inr m"
    by (simp add: match_features_def)
  from process_categories_keys [OF this] show ?thesis
    by (simp add: dict_keys_def comp_def)
qed

lemma match_features_unknown_category:
  "match_features [\<lparr>product_name = Some ''A'',
       specifications = Some [(''thermal'', [(''TDP'', PStr ''45W'')])]\<rparr>]
   = Inl (KeyError ''thermal'')"
  by code_simp

lemma sample_labels_in_vocabulary:
  "\<forall>p\<in>set [\<lparr>product_name = Some ''A'',
        specifications = Some [(''memory'', [(''RAM'', PStr ''8GB'')]),
                               (''other'', [(''Weight'', PStr ''189 g'')])]\<rparr>].
     \<forall>l\<in>set (flat_labels p). categorize_feature l \<in> set expected_categories"
  by code_simp

section \<open>The categories in the result of match_features\<close>

text \<open>
  Claim C1, as amended.  For the empty list \<^verbatim>\<open>match_features\<close> returns the empty
  dictionary.  For every non-empty list of product records whose flattened labels are all
  categorized into the twelve enumerated categories (processor, memory, storage, display,
  camera, battery, dimensions, connectivity, os, price, graphics, other),
  \<^verbatim>\<open>match_features\<close> returns without raising and the keys of its result are exactly
  these twelve categories, in this order.
\<close>

theorem match_features_fully_keyed:
  "match_features [] = Inr []
   \<and> expected_categories =
     [''processor'', ''memory'', ''storage'', ''display'', ''camera'', ''battery'',
      ''dimensions'', ''connectivity'', ''os'', ''price'', ''graphics'', ''other'']
   \<and> (products_data \<noteq> []
        \<and> (\<forall>p\<in>set products_data. \<forall>l\<in>set (flat_labels p).
              categorize_feature l \<in> set expected_categories)
       \<longrightarrow> (\<exists>m. match_features products_data = Inr m \<and> dict_keys m = expected_categories))"
proof (intro conjI impI)
  show "match_features [] = Inr []" by (simp add: match_features_def)
next
  show "expected_categories =
     [''processor'', ''memory'', ''storage'', ''display'', ''camera'', ''battery'',
      ''dimensions'', ''connectivity'', ''os'', ''price'', ''graphics'', ''other'']"
    by (rule expected_categories_eq)
next
  assume a: "products_data \<noteq> []
        \<and> (\<forall>p\<in>set products_data. \<forall>l\<in>set (flat_labels p).
              categorize_feature l \<in> set expected_categories)"
  let ?m0 = "map (\<lambda>category. (category, [])) expected_categories :: matched"
  have "fst ` set ?m0 = set expected_categories" by (simp add: image_comp comp_def)
  with a have "fst ` set (categorize_all (extract_all_features products_data)) \<subseteq> fst ` set ?m0"
    using categorized_in_vocabulary [of products_data] by simp
  then obtain m where
    "process_categories (categorize_all (extract_all_features products_data)) ?m0 = Inr m"
    using process_categories_ok by blast
  with a have m: "match_features products_data = Inr m" by (simp add: match_features_def)
  with a show "\<exists>m. match_features products_data = Inr m \<and> dict_keys m = expected_categories"
    using match_features_keys [of products_data m] by simp
qed

text \<open>The theorem at a product with a memory label and an uncategorized weight label.\<close>

theorem match_features_fully_keyed_witness:
  "\<exists>m. match_features [\<lparr>product_name = Some ''A'',
        specifications = Some [(''memory'', [(''RAM'', PStr ''8GB'')]),
                               (''other'', [(''Weight'', PStr ''189 g'')])]\<rparr>] = Inr m
       \<and> dict_keys m = expected_categories"
  using match_features_fully_keyed [of "[\<lparr>product_name = Some ''A'',
        specifications = Some [(''memory'', [(''RAM'', PStr ''8GB'')]),
                               (''other'', [(''Weight'', PStr ''189 g'')])]\<rparr>]"]
    sample_labels_in_vocabulary
  by simp

text \<open>
  The claim as stated fails: for the empty list the result has no key at all (the guard
  at the start of \<^verbatim>\<open>match_features\<close> returns \<^verbatim>\<open>{}\<close>), and a specification category
  outside the vocabulary makes \<^verbatim>\<open>match_features\<close> raise \<^verbatim>\<open>KeyError\<close>.
\<close>

theorem match_features_fully_keyed_counterexample:
  "match_features [] = Inr []
   \<and> dict_keys ([] :: matched) \<noteq> expected_categories
   \<and> match_features [\<lparr>product_name = Some ''A'',
        specifications = Some [(''thermal'', [(''TDP'', PStr ''45W'')])]\<rparr>]
      = Inl (KeyError ''thermal'')"
proof (intro conjI)
  show "match_features [] = Inr []" by (simp add: match_features_def)
next
  show "dict_keys ([] :: matched) \<noteq> expected_categories"
    by (simp add: expected_categories_eq dict_keys_def)
next
  show "match_features [\<lparr>product_name = Some ''A'',
        specifications = Some [(''thermal'', [(''TDP'', PStr ''45W'')])]\<rparr>]
      = Inl (KeyError ''thermal'')"
    by (rule match_features_unknown_category)
qed

section \<open>No annotation with the policy lower_better\<close>

lemma generate_feature_matrix_mem:
  assumes "(category, fm) \<in> set (generate_feature_matrix mf)" "(feature_key, entry) \<in> set fm"
  shows "category \<in> fst ` set mf
         \<and> (\<exists>product_values. entry = feature_entry category feature_key product_values)"
proof -
  from assms(1) foldl_dict_set_mem2 [of category fm "\<lambda>c fs. c"
      "\<lambda>c fs. foldl (\<lambda>m (feature_key, product_values).
                 dict_set m feature_key (feature_entry c feature_key product_values)) [] fs"
      "[]" mf]
  obtain fs where m: "(category, fs) \<in> set mf"
    and fm: "fm = foldl (\<lambda>m (feature_key, product_values).
                 dict_set m feature_key (feature_entry category feature_key product_values)) [] fs"
    unfolding generate_feature_matrix_def by auto
  from assms(2) fm foldl_dict_set_mem2 [of feature_key entry "\<lambda>k pv. k"
      "\<lambda>k pv. feature_entry category k pv" "[]" fs]
  have "\<exists>product_values. entry = feature_entry category feature_key product_values" by auto
  moreover have "category \<in> fst ` set mf" using m by force
  ultimately show ?thesis by simp
qed

lemma feature_entry_comparison:
  assumes "(k, Comparison c) \<in> set (feature_entry category feature_key product_values)"
  shows "comparison_data category feature_key product_values = Some c"
proof -
  let ?e = "foldl (\<lambda>e (name, v). dict_set e name (Value v)) [] product_values"
  have v: "(k, Comparison c) \<notin> set ?e"
    using foldl_dict_set_mem2 [of k "Comparison c" "\<lambda>n v. n" "\<lambda>n v. Value v" "[]"
        product_values] by auto
  show ?thesis
  proof (cases "comparison_data category feature_key product_values")
    case None
    with assms v show ?thesis by (simp add: feature_entry_def)
  next
    case (Some c')
    with assms have "(k, Comparison c) \<in> set (dict_set ?e ''_comparison'' (Comparison c'))"
      by (simp add: feature_entry_def)
    from dict_set_mem [OF this] v have "c = c'" by simp
    with Some show ?thesis by simp
  qed
qed

lemma comparison_data_lower_better:
  assumes "comparison_data category feature_key product_values = Some c"
    and "cmp_type c = ''lower_better''"
  shows "category = ''weight''"
  using assms unfolding comparison_data_def
  by (auto split: if_splits list.splits option.splits simp: Let_def)

lemma match_features_two_memory:
  "match_features
     [\<lparr>product_name = Some ''A'', specifications = Some [(''memory'', [(''RAM'', PStr ''8GB'')])]\<rparr>,
      \<lparr>product_name = Some ''B'', specifications = Some [(''memory'', [(''RAM'', PStr ''12GB'')])]\<rparr>]
   = Inr [(''processor'', []),
          (''memory'', [(''memory - RAM'', [(''A'', PStr ''8GB''), (''B'', PStr ''12GB'')])]),
          (''storage'', []), (''display'', []), (''camera'', []), (''battery'', []),
          (''dimensions'', []), (''connectivity'', []), (''os'', []), (''price'', []),
          (''graphics'', []), (''other'', [])]"
  by code_simp

lemma generate_feature_matrix_two_memory:
  "generate_feature_matrix
     [(''processor'', []),
      (''memory'', [(''memory - RAM'', [(''A'', PStr ''8GB''), (''B'', PStr ''12GB'')])]),
      (''storage'', []), (''display'', []), (''camera'', []), (''battery'', []),
      (''dimensions'', []), (''connectivity'', []), (''os'', []), (''price'', []),
      (''graphics'', []), (''other'', [])]
   = [(''processor'', []),
      (''memory'', [(''memory - RAM'',
         [(''A'', Value (PStr ''8GB'')), (''B'', Value (PStr ''12GB'')),
          (''_comparison'', Comparison \<lparr>cmp_type = ''higher_better'', cmp_best_product = ''B'',
             cmp_normalized_values = [(''A'', 8), (''B'', 12)], cmp_unit = Some ''GB''\<rparr>)])]),
      (''storage'', []), (''display'', []), (''camera'', []), (''battery'', []),
      (''dimensions'', []), (''connectivity'', []), (''os'', []), (''price'', []),
      (''graphics'', []), (''other'', [])]"
  by (simp add: generate_feature_matrix_def feature_entry_def comparison_data_def
      comparable_values_def normalize_memory_gb base_units_def dict_keys_def lower_def
      lower_char_def)

text \<open>
  Claim C10.  No annotation in the matrix that \<^verbatim>\<open>compare_products\<close> builds (the matrix
  of the result of \<^verbatim>\<open>match_features\<close>) has the policy \<^verbatim>\<open>lower_better\<close>: the label
  \<^verbatim>\<open>"Weight"\<close> is categorized as \<^verbatim>\<open>dimensions\<close>, which has no base unit;
  \<^verbatim>\<open>match_features\<close> only returns the twelve expected categories, and \<^verbatim>\<open>weight\<close>,
  the only category for which the matrix builder chooses \<^verbatim>\<open>lower_better\<close>, is not one
  of them.
\<close>

theorem no_lower_better_from_match_features:
  "''dimensions'' \<notin> set (dict_keys base_units)
   \<and> ''weight'' \<notin> set expected_categories
   \<and> categorize_feature ''Weight'' = ''dimensions''
   \<and> (match_features products_data = Inr matched_features
        \<and> (category, fm) \<in> set (generate_feature_matrix matched_features)
        \<and> (feature_key, entry) \<in> set fm
        \<and> (k, Comparison c) \<in> set entry
       \<longrightarrow> cmp_type c \<noteq> ''lower_better'')"
proof (intro conjI impI)
  show "''dimensions'' \<notin> set (dict_keys base_units)"
    by (simp add: base_units_def dict_keys_def)
next
  show "''weight'' \<notin> set expected_categories" by (simp add: expected_categories_eq)
next
  show "categorize_feature ''Weight'' = ''dimensions''" by code_simp
next
  assume a: "match_features products_data = Inr matched_features
        \<and> (category, fm) \<in> set (generate_feature_matrix matched_features)
        \<and> (feature_key, entry) \<in> set fm
        \<and> (k, Comparison c) \<in> set entry"
  then obtain product_values where cat: "category \<in> fst ` set matched_features"
    and e: "entry = feature_entry category feature_key product_values"
    using generate_feature_matrix_mem [of category fm matched_features feature_key entry]
    by blast
  from a e have cd: "comparison_data category feature_key product_values = Some c"
    using feature_entry_comparison by blast
  have "matched_features \<noteq> []" using cat by auto
  then have "products_data \<noteq> []" using a by (auto simp: match_features_def)
  then have "dict_keys matched_features = expected_categories"
    using a match_features_keys by blast
  moreover have "set (dict_keys matched_features) = fst ` set matched_features"
    by (simp add: dict_keys_def)
  ultimately have "category \<in> set expected_categories" using cat by simp
  then have "category \<noteq> ''weight''" by (auto simp: expected_categories_eq)
  then show "cmp_type c \<noteq> ''lower_better''" using comparison_data_lower_better [OF cd] by blast
qed

text \<open>The theorem at two products with a RAM value each.\<close>

theorem no_lower_better_from_match_features_witness:
  "match_features
     [\<lparr>product_name = Some ''A'', specifications = Some [(''memory'', [(''RAM'', PStr ''8GB'')])]\<rparr>,
      \<lparr>product_name = Some ''B'', specifications = Some [(''memory'', [(''RAM'', PStr ''12GB'')])]\<rparr>]
   = Inr [(''processor'', []),
          (''memory'', [(''memory - RAM'', [(''A'', PStr ''8GB''), (''B'', PStr ''12GB'')])]),
          (''storage'', []), (''display'', []), (''camera'', []), (''battery'', []),
          (''dimensions'', []), (''connectivity'', []), (''os'', []), (''price'', []),
          (''graphics'', []), (''other'', [])]
   \<and> (''memory'', [(''memory - RAM'',
         [(''A'', Value (PStr ''8GB'')), (''B'', Value (PStr ''12GB'')),
          (''_comparison'', Comparison \<lparr>cmp_type = ''higher_better'', cmp_best_product = ''B'',
             cmp_normalized_values = [(''A'', 8), (''B'', 12)], cmp_unit = Some ''GB''\<rparr>)])])
       \<in> set (generate_feature_matrix
          [(''processor'', []),
           (''memory'', [(''memory - RAM'', [(''A'', PStr ''8GB''), (''B'', PStr ''12GB'')])]),
           (''storage'', []), (''display'', []), (''camera'', []), (''battery'', []),
           (''dimensions'', []), (''connectivity'', []), (''os'', []), (''price'', []),
           (''graphics'', []), (''other'', [])])
   \<and> cmp_type \<lparr>cmp_type = ''higher_better'', cmp_best_product = ''B'',
             cmp_normalized_values = [(''A'', 8), (''B'', 12)], cmp_unit = Some ''GB''\<rparr>
       \<noteq> ''lower_better''"
  using no_lower_better_from_match_features [of
      "[\<lparr>product_name = Some ''A'', specifications = Some [(''memory'', [(''RAM'', PStr ''8GB'')])]\<rparr>,
        \<lparr>product_name = Some ''B'', specifications = Some [(''memory'', [(''RAM'', PStr ''12GB'')])]\<rparr>]"
      "[(''processor'', []),
          (''memory'', [(''memory - RAM'', [(''A'', PStr ''8GB''), (''B'', PStr ''12GB'')])]),
          (''storage'', []), (''display'', []), (''camera'', []), (''battery'', []),
          (''dimensions'', []), (''connectivity'', []), (''os'', []), (''price'', []),
          (''graphics'', []), (''other'', [])]"
      "''memory''"
      "[(''memory - RAM'',
         [(''A'', Value (PStr ''8GB'')), (''B'', Value (PStr ''12GB'')),
          (''_comparison'', Comparison \<lparr>cmp_type = ''higher_better'', cmp_best_product = ''B'',
             cmp_normalized_values = [(''A'', 8), (''B'', 12)], cmp_unit = Some ''GB''\<rparr>)])]"
      "''memory - RAM''"
      "[(''A'', Value (PStr ''8GB'')), (''B'', Value (PStr ''12GB'')),
          (''_comparison'', Comparison \<lparr>cmp_type = ''higher_better'', cmp_best_product = ''B'',
             cmp_normalized_values = [(''A'', 8), (''B'', 12)], cmp_unit = Some ''GB''\<rparr>)]"
      "''_comparison''"
      "\<lparr>cmp_type = ''higher_better'', cmp_best_product = ''B'',
             cmp_normalized_values = [(''A'', 8), (''B'', 12)], cmp_unit = Some ''GB''\<rparr>"]
    match_features_two_memory generate_feature_matrix_two_memory
  by simp

section \<open>The greedy clustering pass\<close>

lemma calculate_similarity_sym: "calculate_similarity a b = calculate_similarity b a"
  by (auto simp: calculate_similarity_def Let_def Int_commute Un_commute)

lemma scan_similar_filter:
  "distinct ks \<Longrightarrow>
   scan_similar k ks P =
     (filter (\<lambda>x. x \<noteq> k \<and> x \<notin> P \<and> similarity_threshold \<le> calculate_similarity k x) ks,
      P \<union> set (filter (\<lambda>x. x \<noteq> k \<and> x \<notin> P
                           \<and> similarity_threshold \<le> calculate_similarity k x) ks))"
proof (induction ks arbitrary: P)
  case Nil
  show ?case by simp
next
  case (Cons a ks)
  then have d: "distinct ks" and a: "a \<notin> set ks" by simp_all
  have f: "filter (\<lambda>x. x \<noteq> k \<and> x \<notin> insert a P
                      \<and> similarity_threshold \<le> calculate_similarity k x) ks
         = filter (\<lambda>x. x \<noteq> k \<and> x \<notin> P
                      \<and> similarity_threshold \<le> calculate_similarity k x) ks"
    using a by (intro filter_cong) auto
  show ?case using Cons.IH [OF d] f by auto
qed

lemma py_max_by_mem: "py_max_by key x xs \<in> set (x # xs)"
  by (induction xs arbitrary: x) auto

lemma canonical_key_mem: "cl \<noteq> [] \<Longrightarrow> canonical_key fs cl \<in> set cl"
  using py_max_by_mem [of "\<lambda>k. length (dict_get_default fs k [])"]
  by (cases cl) (auto simp: canonical_key_def simp del: py_max_by.simps)

lemma cluster_pass_partition_aux:
  assumes dk: "distinct (dict_keys fs)"
  shows "dict_keys fs = done @ rest \<Longrightarrow>
     (\<forall>s\<in>set done. s \<notin> P \<longrightarrow>
        (\<forall>x\<in>set (dict_keys fs). x \<notin> P \<longrightarrow> x \<noteq> s \<longrightarrow>
           \<not> similarity_threshold \<le> calculate_similarity s x)) \<Longrightarrow>
     P \<subseteq> set (dict_keys fs) \<Longrightarrow>
     distinct (concat (cluster_pass fs rest P))
     \<and> set (concat (cluster_pass fs rest P)) \<inter> (P \<union> set done) = {}
     \<and> set rest - P \<subseteq> set (concat (cluster_pass fs rest P))
     \<and> set (concat (cluster_pass fs rest P)) \<subseteq> set (dict_keys fs)"
proof (induction rest arbitrary: "done" P)
  case Nil
  show ?case by simp
next
  case (Cons k rest)
  let ?keys = "dict_keys fs"
  have keys: "?keys = (done @ [k]) @ rest" using Cons.prems(1) by simp
  have kd: "k \<notin> set done" and kr: "k \<notin> set rest" and kk: "k \<in> set ?keys"
    using dk Cons.prems(1) by auto
  show ?case
  proof (cases "k \<in> P")
    case True
    have inv: "\<forall>s\<in>set (done @ [k]). s \<notin> P \<longrightarrow>
        (\<forall>x\<in>set ?keys. x \<notin> P \<longrightarrow> x \<noteq> s \<longrightarrow>
           \<not> similarity_threshold \<le> calculate_similarity s x)"
      using Cons.prems(2) True by auto
    from Cons.IH [OF keys inv Cons.prems(3)] True show ?thesis by auto
  next
    case False
    let ?found = "filter (\<lambda>x. x \<noteq> k \<and> x \<notin> P
                      \<and> similarity_threshold \<le> calculate_similarity k x) ?keys"
    let ?P' = "insert (canonical_key fs (k # ?found)) (P \<union> set ?found)"
    let ?R = "cluster_pass fs rest ?P'"
    have cp: "cluster_pass fs (k # rest) P = (k # ?found) # ?R"
      using False scan_similar_filter [OF dk, of k P] by simp
    have can: "canonical_key fs (k # ?found) \<in> set (k # ?found)"
      by (rule canonical_key_mem) simp
    have sub: "?P' \<subseteq> set ?keys" using Cons.prems(3) can kk by auto
    have inv: "\<forall>s\<in>set (done @ [k]). s \<notin> ?P' \<longrightarrow>
        (\<forall>x\<in>set ?keys. x \<notin> ?P' \<longrightarrow> x \<noteq> s \<longrightarrow>
           \<not> similarity_threshold \<le> calculate_similarity s x)"
    proof (intro ballI impI)
      fix s x
      assume s: "s \<in> set (done @ [k])" and sP: "s \<notin> ?P'" and x: "x \<in> set ?keys"
        and xP: "x \<notin> ?P'" and xs: "x \<noteq> s"
      show "\<not> similarity_threshold \<le> calculate_similarity s x"
      proof (cases "s = k")
        case True
        have "x \<notin> set ?found" "x \<notin> P" using xP by auto
        then show ?thesis using x xs True by auto
      next
        case False
        then have "s \<in> set done" "s \<notin> P" using s sP by auto
        moreover have "x \<notin> P" using xP by auto
        ultimately show ?thesis using Cons.prems(2) x xs by blast
      qed
    qed
    from Cons.IH [OF keys inv sub]
    have ih1: "distinct (concat ?R)"
      and ih2: "set (concat ?R) \<inter> (?P' \<union> set (done @ [k])) = {}"
      and ih3: "set rest - ?P' \<subseteq> set (concat ?R)"
      and ih4: "set (concat ?R) \<subseteq> set ?keys" by blast+
    have fd: "set ?found \<inter> set done = {}"
    proof (rule ccontr)
      assume "set ?found \<inter> set done \<noteq> {}"
      then obtain x where xf: "x \<in> set ?found" and xd: "x \<in> set done" by blast
      from xf have "x \<noteq> k" "x \<notin> P" "similarity_threshold \<le> calculate_similarity k x"
        by auto
      moreover from xd \<open>x \<notin> P\<close> Cons.prems(2) kk \<open>k \<notin> P\<close> \<open>x \<noteq> k\<close>
      have "\<not> similarity_threshold \<le> calculate_similarity x k" by blast
      ultimately show False by (simp add: calculate_similarity_sym [of x k])
    qed
    have c1: "distinct (concat ((k # ?found) # ?R))"
      using ih1 ih2 dk by (auto simp: distinct_filter)
    have c2: "set (concat ((k # ?found) # ?R)) \<inter> (P \<union> set done) = {}"
      using ih2 fd False kd by auto
    have c3: "set (k # rest) - P \<subseteq> set (concat ((k # ?found) # ?R))"
      using ih3 can by auto
    have c4: "set (concat ((k # ?found) # ?R)) \<subseteq> set ?keys"
      using ih4 kk by auto
    show ?thesis unfolding cp using c1 c2 c3 c4 by blast
  qed
qed

lemma cluster_pass_partition:
  assumes "distinct (dict_keys fs)"
  shows "distinct (concat (cluster_pass fs (dict_keys fs) {}))
     \<and> set (concat (cluster_pass fs (dict_keys fs) {})) = set (dict_keys fs)"
  using cluster_pass_partition_aux [OF assms, of "[]" "dict_keys fs" "{}"] by auto

lemma cluster_pass_similar:
  assumes "distinct (dict_keys fs)"
  shows "cl \<in> set (cluster_pass fs rest P) \<Longrightarrow>
     \<exists>seed found. cl = seed # found
        \<and> (\<forall>x\<in>set found. similarity_threshold \<le> calculate_similarity seed x)"
proof (induction rest arbitrary: P)
  case Nil
  then show ?case by simp
next
  case (Cons k rest)
  show ?case
  proof (cases "k \<in> P")
    case True
    with Cons show ?thesis by simp
  next
    case False
    let ?found = "filter (\<lambda>x. x \<noteq> k \<and> x \<notin> P
                      \<and> similarity_threshold \<le> calculate_similarity k x) (dict_keys fs)"
    from Cons.prems False scan_similar_filter [OF assms, of k P]
    have "cl = k # ?found
        \<or> cl \<in> set (cluster_pass fs rest
              (insert (canonical_key fs (k # ?found)) (P \<union> set ?found)))"
      by simp
    then show ?thesis
    proof
      assume "cl = k # ?found"
      then show ?thesis by simp
    next
      assume "cl \<in> set (cluster_pass fs rest
              (insert (canonical_key fs (k # ?found)) (P \<union> set ?found)))"
      then show ?thesis by (rule Cons.IH)
    qed
  qed
qed

lemma dict_get_dict_set:
  "dict_get (dict_set d k v) k' = (if k' = k then Some v else dict_get d k')"
  by (induction d) auto

lemma dict_set_append_new: "k \<notin> fst ` set d \<Longrightarrow> dict_set d k v = d @ [(k, v)]"
  by (induction d) auto

lemma distinct_map_of_concat:
  "distinct (concat cls) \<Longrightarrow> \<forall>cl\<in>set cls. f cl \<in> set cl \<Longrightarrow> distinct (map f cls)"
proof (induction cls)
  case Nil
  show ?case by simp
next
  case (Cons c cls)
  have "f c \<notin> f ` set cls"
  proof
    assume "f c \<in> f ` set cls"
    then obtain c' where c': "c' \<in> set cls" and e: "f c = f c'" by auto
    then have "f c' \<in> set (concat cls)" using Cons.prems(2) by auto
    moreover have "f c \<in> set c" using Cons.prems(2) by simp
    ultimately show False using Cons.prems(1) e by auto
  qed
  then show ?case using Cons by simp
qed

lemma store_clusters_result:
  "dict_get m category = Some entries \<Longrightarrow>
   distinct (map fst entries @ map (canonical_key fs) cls) \<Longrightarrow>
   \<exists>m'. store_clusters category fs cls m = Inr m'
      \<and> dict_get m' category =
          Some (entries @ map (\<lambda>cl. (canonical_key fs cl, final_values (merged_values fs cl))) cls)"
proof (induction cls arbitrary: m entries)
  case Nil
  then show ?case by simp
next
  case (Cons cl cls)
  let ?e = "(canonical_key fs cl, final_values (merged_values fs cl))"
  let ?m1 = "dict_set m category (dict_set entries (fst ?e) (snd ?e))"
  have new: "canonical_key fs cl \<notin> fst ` set entries" using Cons.prems(2) by auto
  then have g: "dict_get ?m1 category = Some (entries @ [?e])"
    by (simp add: dict_get_dict_set dict_set_append_new)
  have d: "distinct (map fst (entries @ [?e]) @ map (canonical_key fs) cls)"
    using Cons.prems(2) by auto
  from Cons.IH [OF g d] show ?case using Cons.prems(1) by simp
qed

lemma organize_by_product_snoc:
  "organize_by_product (xs @ [(p, v)]) =
     dict_set (organize_by_product xs) p (dict_get_default (organize_by_product xs) p [] @ [v])"
  by (simp add: organize_by_product_def)

lemma organize_by_product_inv:
  "distinct (map fst (organize_by_product xs))
   \<and> fst ` set (organize_by_product xs) = fst ` set xs
   \<and> (\<forall>p vs. (p, vs) \<in> set (organize_by_product xs) \<longrightarrow>
         (\<exists>v rest. vs = v # rest \<and> map_of xs p = Some v))"
proof (induction xs rule: rev_induct)
  case Nil
  show ?case by (simp add: organize_by_product_def)
next
  case (snoc a xs)
  obtain p v where a: "a = (p, v)" by (cases a)
  let ?d = "organize_by_product xs"
  let ?vs = "dict_get_default ?d p [] @ [v]"
  have eq: "organize_by_product (xs @ [a]) = dict_set ?d p ?vs"
    unfolding a by (rule organize_by_product_snoc)
  from snoc have i1: "distinct (map fst ?d)" and i2: "fst ` set ?d = fst ` set xs"
    and i3: "\<forall>q vs. (q, vs) \<in> set ?d \<longrightarrow> (\<exists>w rest. vs = w # rest \<and> map_of xs q = Some w)"
    by blast+
  have c1: "distinct (map fst (dict_set ?d p ?vs))"
    using i1 by (simp add: dict_set_map_fst)
  have c2: "fst ` set (dict_set ?d p ?vs) = fst ` set (xs @ [a])"
    using i2 a by (simp add: dict_set_keys)
  have c3: "\<forall>q vs. (q, vs) \<in> set (dict_set ?d p ?vs) \<longrightarrow>
         (\<exists>w rest. vs = w # rest \<and> map_of (xs @ [a]) q = Some w)"
  proof (intro allI impI)
    fix q vs
    assume "(q, vs) \<in> set (dict_set ?d p ?vs)"
    then consider "(q, vs) \<in> set ?d" | "q = p" "vs = ?vs" using dict_set_mem by fastforce
    then show "\<exists>w rest. vs = w # rest \<and> map_of (xs @ [a]) q = Some w"
    proof cases
      case 1
      with i3 obtain w rest where "vs = w # rest" "map_of xs q = Some w" by blast
      then show ?thesis by (simp add: map_add_def)
    next
      case 2
      show ?thesis
      proof (cases "dict_get ?d p")
        case None
        then have "p \<notin> fst ` set xs" using i2 dict_get_None [of ?d p] by simp
        then have "map_of xs p = None" by (simp add: map_of_eq_None_iff)
        then show ?thesis using 2 None a by (simp add: dict_get_default_def map_add_def)
      next
        case (Some ws)
        then have "(p, ws) \<in> set ?d" by (rule dict_get_mem)
        with i3 obtain w rest where "ws = w # rest" "map_of xs p = Some w" by blast
        then show ?thesis using 2 Some a by (simp add: dict_get_default_def map_add_def)
      qed
    qed
  qed
  show ?case unfolding eq using c1 c2 c3 by blast
qed

lemma final_values_first:
  "distinct (map fst (final_values merged))
   \<and> fst ` set (final_values merged) = fst ` set merged
   \<and> (\<forall>p v. (p, v) \<in> set (final_values merged) \<longrightarrow> map_of merged p = Some v)"
proof -
  let ?d = "organize_by_product merged"
  from organize_by_product_inv [of merged]
  have i1: "distinct (map fst ?d)" and i2: "fst ` set ?d = fst ` set merged"
    and i3: "\<forall>q vs. (q, vs) \<in> set ?d \<longrightarrow> (\<exists>w rest. vs = w # rest \<and> map_of merged q = Some w)"
    by blast+
  have "\<forall>x\<in>set ?d. (case x of (name, vals) \<Rightarrow>
            (case vals of [] \<Rightarrow> [] | v # _ \<Rightarrow> [(name, v)])) = [(fst x, hd (snd x))]"
    using i3 by fastforce
  then have m: "map (\<lambda>(name, vals). (case vals of [] \<Rightarrow> [] | v # _ \<Rightarrow> [(name, v)])) ?d
      = map (\<lambda>x. [(fst x, hd (snd x))]) ?d"
    by (intro map_cong) auto
  have fv: "final_values merged = map (\<lambda>x. (fst x, hd (snd x))) ?d"
    unfolding final_values_def m by (simp add: concat_map_singleton)
  have c1: "distinct (map fst (final_values merged))"
    using i1 by (simp add: fv comp_def)
  have c2: "fst ` set (final_values merged) = fst ` set merged"
    using i2 by (simp add: fv image_comp comp_def)
  have c3: "\<forall>p v. (p, v) \<in> set (final_values merged) \<longrightarrow> map_of merged p = Some v"
    using i3 by (fastforce simp: fv)
  show ?thesis using c1 c2 c3 by blast
qed

lemma add_contribution_distinct:
  assumes "\<forall>(c, fs)\<in>set cz. distinct (dict_keys fs)"
  shows "\<forall>(c, fs)\<in>set (add_contribution cz name key v). distinct (dict_keys fs)"
proof -
  let ?c = "categorize_feature key"
  let ?fs = "dict_get_default cz ?c []"
  have "distinct (dict_keys ?fs)"
  proof (cases "dict_get cz ?c")
    case None
    then show ?thesis by (simp add: dict_get_default_def dict_keys_def)
  next
    case (Some fs)
    then have "(?c, fs) \<in> set cz" by (rule dict_get_mem)
    then show ?thesis using assms Some by (auto simp: dict_get_default_def)
  qed
  then have n: "distinct (dict_keys (dict_set ?fs key (dict_get_default ?fs key [] @ [(name, v)])))"
    by (simp add: dict_keys_def dict_set_map_fst)
  show ?thesis
  proof (intro ballI, clarify)
    fix c fs
    assume "(c, fs) \<in> set (add_contribution cz name key v)"
    then have "(c, fs) \<in> set cz
        \<or> fs = dict_set ?fs key (dict_get_default ?fs key [] @ [(name, v)])"
      using dict_set_mem [of c fs cz ?c] by (auto simp: add_contribution_def Let_def)
    then show "distinct (dict_keys fs)" using assms n by auto
  qed
qed

lemma categorize_product_distinct:
  "\<forall>(c, fs)\<in>set cz. distinct (dict_keys fs) \<Longrightarrow>
   \<forall>(c, fs)\<in>set (foldl (\<lambda>cz (key, v). add_contribution cz name key v) cz kvs).
      distinct (dict_keys fs)"
proof (induction kvs arbitrary: cz)
  case Nil
  then show ?case by simp
next
  case (Cons a kvs)
  obtain key v where a: "a = (key, v)" by (cases a)
  show ?case unfolding a foldl_Cons prod.case
    by (rule Cons.IH) (rule add_contribution_distinct [OF Cons.prems])
qed

lemma categorize_fold_distinct:
  "\<forall>(c, fs)\<in>set cz. distinct (dict_keys fs) \<Longrightarrow>
   \<forall>(c, fs)\<in>set (foldl (\<lambda>cz (name, kvs).
        foldl (\<lambda>cz (key, v). add_contribution cz name key v) cz kvs) cz all).
      distinct (dict_keys fs)"
proof (induction all arbitrary: cz)
  case Nil
  then show ?case by simp
next
  case (Cons a all)
  obtain name kvs where a: "a = (name, kvs)" by (cases a)
  show ?case unfolding a foldl_Cons prod.case
    by (rule Cons.IH) (rule categorize_product_distinct [OF Cons.prems])
qed

lemma categorize_all_distinct:
  "(category, fs) \<in> set (categorize_all all_features) \<Longrightarrow> distinct (dict_keys fs)"
  using categorize_fold_distinct [of "[]" all_features]
  unfolding categorize_all_def by auto

lemma cluster_pass_greedy_aux:
  assumes dk: "distinct (dict_keys fs)"
  shows "dict_keys fs = done @ rest \<Longrightarrow>
     (\<forall>s\<in>set done. s \<notin> P \<longrightarrow>
        (\<forall>x\<in>set (dict_keys fs). x \<notin> P \<longrightarrow> x \<noteq> s \<longrightarrow>
           \<not> similarity_threshold \<le> calculate_similarity s x)) \<Longrightarrow>
     P \<subseteq> set (dict_keys fs) \<Longrightarrow>
     cluster_pass fs rest P = spec_greedy_clusters (filter (\<lambda>x. x \<notin> P) rest)"
proof (induction rest arbitrary: "done" P)
  case Nil
  show ?case by simp
next
  case (Cons k rest)
  let ?keys = "dict_keys fs"
  let ?ok = "\<lambda>a x. similarity_threshold \<le> calculate_similarity a x"
  have keys: "?keys = (done @ [k]) @ rest" using Cons.prems(1) by simp
  have kd: "k \<notin> set done" and kr: "k \<notin> set rest" and kk: "k \<in> set ?keys"
    using dk Cons.prems(1) by auto
  show ?case
  proof (cases "k \<in> P")
    case True
    have inv: "\<forall>s\<in>set (done @ [k]). s \<notin> P \<longrightarrow>
        (\<forall>x\<in>set ?keys. x \<notin> P \<longrightarrow> x \<noteq> s \<longrightarrow> \<not> ?ok s x)"
      using Cons.prems(2) True by auto
    from Cons.IH [OF keys inv Cons.prems(3)] True show ?thesis by simp
  next
    case False
    let ?found = "filter (\<lambda>x. x \<noteq> k \<and> x \<notin> P \<and> ?ok k x) ?keys"
    let ?P' = "insert (canonical_key fs (k # ?found)) (P \<union> set ?found)"
    let ?U = "filter (\<lambda>x. x \<notin> P) rest"
    have cp: "cluster_pass fs (k # rest) P = (k # ?found) # cluster_pass fs rest ?P'"
      using False scan_similar_filter [OF dk, of k P] by simp
    have can: "canonical_key fs (k # ?found) \<in> set (k # ?found)"
      by (rule canonical_key_mem) simp
    have sub: "?P' \<subseteq> set ?keys" using Cons.prems(3) can kk by auto
    have inv: "\<forall>s\<in>set (done @ [k]). s \<notin> ?P' \<longrightarrow>
        (\<forall>x\<in>set ?keys. x \<notin> ?P' \<longrightarrow> x \<noteq> s \<longrightarrow> \<not> ?ok s x)"
    proof (intro ballI impI)
      fix s x
      assume s: "s \<in> set (done @ [k])" and sP: "s \<notin> ?P'" and x: "x \<in> set ?keys"
        and xP: "x \<notin> ?P'" and xs: "x \<noteq> s"
      show "\<not> ?ok s x"
      proof (cases "s = k")
        case True
        have "x \<notin> set ?found" "x \<notin> P" using xP by auto
        then show ?thesis using x xs True by auto
      next
        case False
        then have "s \<in> set done" "s \<notin> P" using s sP by auto
        moreover have "x \<notin> P" using xP by auto
        ultimately show ?thesis using Cons.prems(2) x xs by blast
      qed
    qed
    have dn: "filter (\<lambda>x. x \<noteq> k \<and> x \<notin> P \<and> ?ok k x) done = []"
    proof -
      have "\<forall>x\<in>set done. \<not> (x \<noteq> k \<and> x \<notin> P \<and> ?ok k x)"
      proof (intro ballI notI)
        fix x
        assume xd: "x \<in> set done" and c: "x \<noteq> k \<and> x \<notin> P \<and> ?ok k x"
        from xd c Cons.prems(2) kk False
        have "\<not> ?ok x k" by blast
        with c show False by (simp add: calculate_similarity_sym [of x k])
      qed
      then show ?thesis by (simp add: filter_empty_conv)
    qed
    have rs: "filter (\<lambda>x. x \<noteq> k \<and> x \<notin> P \<and> ?ok k x) rest = filter (?ok k) ?U"
      using kr by (auto intro: filter_cong)
    have found: "?found = filter (?ok k) ?U"
      unfolding Cons.prems(1) filter_append using dn rs by simp
    have "filter (\<lambda>x. x \<notin> ?P') rest = filter (\<lambda>x. x \<notin> P \<and> \<not> ?ok k x) rest"
    proof (rule filter_cong [OF refl])
      fix x
      assume xr: "x \<in> set rest"
      then have xk: "x \<noteq> k" and xkeys: "x \<in> set ?keys" using kr Cons.prems(1) by auto
      show "(x \<notin> ?P') = (x \<notin> P \<and> \<not> ?ok k x)"
      proof
        assume "x \<notin> ?P'"
        then have "x \<notin> P" "x \<notin> set ?found" by auto
        then show "x \<notin> P \<and> \<not> ?ok k x" using xk xkeys by auto
      next
        assume a: "x \<notin> P \<and> \<not> ?ok k x"
        then have "x \<notin> set ?found" by auto
        moreover from this xk can have "x \<noteq> canonical_key fs (k # ?found)" by auto
        ultimately show "x \<notin> ?P'" using a by auto
      qed
    qed
    then have rest': "filter (\<lambda>x. x \<notin> ?P') rest = filter (\<lambda>x. \<not> ?ok k x) ?U" by simp
    have "cluster_pass fs rest ?P' = spec_greedy_clusters (filter (\<lambda>x. x \<notin> ?P') rest)"
      by (rule Cons.IH [OF keys inv sub])
    then show ?thesis unfolding cp rest' using False found by simp
  qed
qed

lemma cluster_pass_greedy:
  assumes "distinct (dict_keys fs)"
  shows "cluster_pass fs (dict_keys fs) {} = spec_greedy_clusters (dict_keys fs)"
  using cluster_pass_greedy_aux [OF assms, of "[]" "dict_keys fs" "{}"] by simp

lemma filter_eq_appendD:
  "filter Q xs = ys @ z # zs \<Longrightarrow>
   \<exists>as bs. xs = as @ z # bs \<and> filter Q as = ys \<and> filter Q bs = zs \<and> Q z"
proof (induction xs arbitrary: ys)
  case Nil
  then show ?case by simp
next
  case (Cons x xs)
  show ?case
  proof (cases "Q x")
    case False
    with Cons.prems have "filter Q xs = ys @ z # zs" by simp
    from Cons.IH [OF this] obtain as bs where
      "xs = as @ z # bs" "filter Q as = ys" "filter Q bs = zs" "Q z" by blast
    with False show ?thesis
      by (intro exI [where x = "x # as"] exI [where x = bs]) simp
  next
    case True
    with Cons.prems have e: "x # filter Q xs = ys @ z # zs" by simp
    show ?thesis
    proof (cases ys)
      case Nil
      with e have "x = z" "filter Q xs = zs" by simp_all
      with True Nil show ?thesis
        by (intro exI [where x = "[]"] exI [where x = xs]) simp
    next
      case (Cons y ys')
      with e have xy: "x = y" and f: "filter Q xs = ys' @ z # zs" by simp_all
      from Cons.IH [OF f] obtain as bs where
        "xs = as @ z # bs" "filter Q as = ys'" "filter Q bs = zs" "Q z" by blast
      with True xy Cons show ?thesis
        by (intro exI [where x = "x # as"] exI [where x = bs]) simp
    qed
  qed
qed

lemma spec_greedy_clusters_nth:
  "distinct u \<Longrightarrow> i < length (spec_greedy_clusters u) \<Longrightarrow>
   \<exists>seed found pre post.
      spec_greedy_clusters u ! i = seed # found
      \<and> u = pre @ seed # post
      \<and> set pre \<subseteq> set (concat (take i (spec_greedy_clusters u)))
      \<and> seed \<notin> set (concat (take i (spec_greedy_clusters u)))
      \<and> found = filter (\<lambda>x. x \<noteq> seed \<and> x \<notin> set (concat (take i (spec_greedy_clusters u)))
                              \<and> similarity_threshold \<le> calculate_similarity seed x) u"
proof (induction u arbitrary: i rule: spec_greedy_clusters.induct)
  case 1
  then show ?case by simp
next
  case (2 s rest)
  let ?ok = "\<lambda>a x. similarity_threshold \<le> calculate_similarity a x"
  let ?c0 = "s # filter (?ok s) rest"
  let ?r = "filter (\<lambda>x. \<not> ?ok s x) rest"
  let ?g = "spec_greedy_clusters ?r"
  have g: "spec_greedy_clusters (s # rest) = ?c0 # ?g" by simp
  have sr: "s \<notin> set rest" and dr: "distinct rest" using "2.prems"(1) by simp_all
  show ?case
  proof (cases i)
    case 0
    have "filter (\<lambda>x. x \<noteq> s \<and> ?ok s x) rest = filter (?ok s) rest"
      using sr by (auto intro: filter_cong)
    then show ?thesis unfolding g 0
      by (intro exI [where x = s] exI [where x = "filter (?ok s) rest"]
          exI [where x = "[]"] exI [where x = rest]) simp
  next
    case (Suc j)
    let ?cov' = "set (concat (take j ?g))"
    let ?cov = "set (concat (take i (?c0 # ?g)))"
    have cov: "?cov = set ?c0 \<union> ?cov'" unfolding Suc by simp
    have j: "j < length ?g" using "2.prems"(2) Suc by simp
    have "distinct ?r" using dr by simp
    from "2.IH" [OF this j] obtain seed found pre' post' where
      n: "?g ! j = seed # found" and r: "?r = pre' @ seed # post'"
      and p: "set pre' \<subseteq> ?cov'" and sc: "seed \<notin> ?cov'"
      and f: "found = filter (\<lambda>x. x \<noteq> seed \<and> x \<notin> ?cov' \<and> ?ok seed x) ?r"
      by blast
    from filter_eq_appendD [OF r] obtain as bs where
      rest: "rest = as @ seed # bs" and as: "filter (\<lambda>x. \<not> ?ok s x) as = pre'"
      and ns: "\<not> ?ok s seed" by blast
    have seed_rest: "seed \<in> set rest" using rest by simp
    then have seed_s: "seed \<noteq> s" using sr by auto
    have c1: "(?c0 # ?g) ! i = seed # found"
      unfolding Suc using n by simp
    have c2: "s # rest = (s # as) @ seed # bs" using rest by simp
    have c3: "set (s # as) \<subseteq> ?cov"
    proof
      fix a
      assume "a \<in> set (s # as)"
      then consider "a = s" | "a \<in> set as" "?ok s a" | "a \<in> set as" "\<not> ?ok s a" by auto
      then show "a \<in> ?cov"
      proof cases
        case 1
        then show ?thesis unfolding cov by simp
      next
        case 2
        then have "a \<in> set (filter (?ok s) rest)" using rest by simp
        then show ?thesis unfolding cov by simp
      next
        case 3
        then have "a \<in> set (filter (\<lambda>x. \<not> ?ok s x) as)" by simp
        then have "a \<in> ?cov'" using as p by auto
        then show ?thesis unfolding cov by simp
      qed
    qed
    have c4: "seed \<notin> ?cov" unfolding cov using seed_s ns sc by simp
    have "filter (\<lambda>x. x \<noteq> seed \<and> x \<notin> ?cov \<and> ?ok seed x) rest
        = filter (\<lambda>x. \<not> ?ok s x \<and> (x \<noteq> seed \<and> x \<notin> ?cov' \<and> ?ok seed x)) rest"
    proof (rule filter_cong [OF refl])
      fix x
      assume "x \<in> set rest"
      then have m: "x \<in> set ?c0 \<longleftrightarrow> ?ok s x" using sr by auto
      show "(x \<noteq> seed \<and> x \<notin> ?cov \<and> ?ok seed x)
          = (\<not> ?ok s x \<and> (x \<noteq> seed \<and> x \<notin> ?cov' \<and> ?ok seed x))"
        unfolding cov Un_iff m by blast
    qed
    also have "\<dots> = found" unfolding f by simp
    finally have fr: "filter (\<lambda>x. x \<noteq> seed \<and> x \<notin> ?cov \<and> ?ok seed x) rest = found" .
    have "s \<in> ?cov" unfolding cov by simp
    then have c5: "found = filter (\<lambda>x. x \<noteq> seed \<and> x \<notin> ?cov \<and> ?ok seed x) (s # rest)"
      using fr by simp
    have "\<exists>seed found pre post.
      (?c0 # ?g) ! i = seed # found
      \<and> s # rest = pre @ seed # post
      \<and> set pre \<subseteq> ?cov
      \<and> seed \<notin> ?cov
      \<and> found = filter (\<lambda>x. x \<noteq> seed \<and> x \<notin> ?cov \<and> ?ok seed x) (s # rest)"
      using c1 c2 c3 c4 c5 by blast
    then show ?thesis unfolding g .
  qed
qed

lemma categorize_all_sample:
  "categorize_all [(''A'', [(''memory - RAM'', PStr ''8GB''), (''memory - RAM Size'', PStr ''16GB'')]),
                   (''B'', [(''memory - Memory'', PStr ''12GB'')])]
   = [(''memory'', [(''memory - RAM'', [(''A'', PStr ''8GB'')]),
                    (''memory - RAM Size'', [(''A'', PStr ''16GB'')]),
                    (''memory - Memory'', [(''B'', PStr ''12GB'')])])]"
  by code_simp

lemma cluster_pass_sample:
  "cluster_pass [(''memory - RAM'', [(''A'', PStr ''8GB'')]),
                 (''memory - RAM Size'', [(''A'', PStr ''16GB'')]),
                 (''memory - Memory'', [(''B'', PStr ''12GB'')])]
     (dict_keys [(''memory - RAM'', [(''A'', PStr ''8GB'')]),
                 (''memory - RAM Size'', [(''A'', PStr ''16GB'')]),
                 (''memory - Memory'', [(''B'', PStr ''12GB'')])]) {}
   = [[''memory - RAM'', ''memory - RAM Size''], [''memory - Memory'']]"
  by code_simp

text \<open>
  Claim C4, as amended.  The labels of a category are the keys of a dictionary, so they
  are distinct (this holds for every category that \<^verbatim>\<open>match_features\<close> builds).  The
  pass of the source is then the greedy pass of the specification, \<open>spec_greedy_clusters\<close>.
  Spelled out: the seed of every cluster is the first label, in first-seen order, that
  is in no earlier cluster (every label before it is in an earlier cluster), and the
  other members of the cluster are exactly the labels that are in no earlier cluster and
  whose similarity to the seed is at least 0.7, in first-seen order.  Every label is in
  exactly one cluster: the clusters are disjoint and cover the labels.  The canonical
  label of a cluster is one of its members.  The entry of a cluster holds exactly one
  pair for every product that contributes to a member, namely the first contribution of
  that product in member order (a later contribution of the same product in the cluster
  is dropped); and when the category is present and empty before the pass, the result
  holds exactly one entry per cluster, under the canonical label of the cluster.
\<close>

theorem greedy_clusters_partition:
  "((category, fs) \<in> set (categorize_all all_features) \<longrightarrow> distinct (dict_keys fs))
   \<and> (distinct (dict_keys fs) \<longrightarrow>
        distinct (concat (cluster_pass fs (dict_keys fs) {}))
        \<and> set (concat (cluster_pass fs (dict_keys fs) {})) = set (dict_keys fs)
        \<and> cluster_pass fs (dict_keys fs) {} = spec_greedy_clusters (dict_keys fs)
        \<and> (\<forall>i<length (cluster_pass fs (dict_keys fs) {}).
             \<exists>seed found pre post.
               cluster_pass fs (dict_keys fs) {} ! i = seed # found
               \<and> dict_keys fs = pre @ seed # post
               \<and> set pre \<subseteq> set (concat (take i (cluster_pass fs (dict_keys fs) {})))
               \<and> seed \<notin> set (concat (take i (cluster_pass fs (dict_keys fs) {})))
               \<and> found = filter (\<lambda>x. x \<noteq> seed
                                   \<and> x \<notin> set (concat (take i (cluster_pass fs (dict_keys fs) {})))
                                   \<and> similarity_threshold \<le> calculate_similarity seed x)
                           (dict_keys fs))
        \<and> (\<forall>cl\<in>set (cluster_pass fs (dict_keys fs) {}).
             (\<exists>seed found. cl = seed # found
                \<and> (\<forall>x\<in>set found. similarity_threshold \<le> calculate_similarity seed x))
             \<and> canonical_key fs cl \<in> set cl
             \<and> distinct (map fst (final_values (merged_values fs cl)))
             \<and> fst ` set (final_values (merged_values fs cl)) = fst ` set (merged_values fs cl)
             \<and> (\<forall>p v. (p, v) \<in> set (final_values (merged_values fs cl))
                   \<longrightarrow> map_of (merged_values fs cl) p = Some v))
        \<and> (dict_get m category = Some [] \<longrightarrow>
             (\<exists>m'. store_clusters category fs (cluster_pass fs (dict_keys fs) {}) m = Inr m'
                \<and> dict_get m' category =
                    Some (map (\<lambda>cl. (canonical_key fs cl, final_values (merged_values fs cl)))
                            (cluster_pass fs (dict_keys fs) {})))))"
proof (intro conjI impI)
  assume "(category, fs) \<in> set (categorize_all all_features)"
  then show "distinct (dict_keys fs)" by (rule categorize_all_distinct)
next
  assume d: "distinct (dict_keys fs)"
  show "distinct (concat (cluster_pass fs (dict_keys fs) {}))"
    using cluster_pass_partition [OF d] by simp
next
  assume d: "distinct (dict_keys fs)"
  show "set (concat (cluster_pass fs (dict_keys fs) {})) = set (dict_keys fs)"
    using cluster_pass_partition [OF d] by simp
next
  assume d: "distinct (dict_keys fs)"
  show "cluster_pass fs (dict_keys fs) {} = spec_greedy_clusters (dict_keys fs)"
    by (rule cluster_pass_greedy [OF d])
next
  assume d: "distinct (dict_keys fs)"
  show "\<forall>i<length (cluster_pass fs (dict_keys fs) {}).
             \<exists>seed found pre post.
               cluster_pass fs (dict_keys fs) {} ! i = seed # found
               \<and> dict_keys fs = pre @ seed # post
               \<and> set pre \<subseteq> set (concat (take i (cluster_pass fs (dict_keys fs) {})))
               \<and> seed \<notin> set (concat (take i (cluster_pass fs (dict_keys fs) {})))
               \<and> found = filter (\<lambda>x. x \<noteq> seed
                                   \<and> x \<notin> set (concat (take i (cluster_pass fs (dict_keys fs) {})))
                                   \<and> similarity_threshold \<le> calculate_similarity seed x)
                           (dict_keys fs)"
    unfolding cluster_pass_greedy [OF d]
    using spec_greedy_clusters_nth [OF d] by blast
next
  assume d: "distinct (dict_keys fs)"
  show "\<forall>cl\<in>set (cluster_pass fs (dict_keys fs) {}).
             (\<exists>seed found. cl = seed # found
                \<and> (\<forall>x\<in>set found. similarity_threshold \<le> calculate_similarity seed x))
             \<and> canonical_key fs cl \<in> set cl
             \<and> distinct (map fst (final_values (merged_values fs cl)))
             \<and> fst ` set (final_values (merged_values fs cl)) = fst ` set (merged_values fs cl)
             \<and> (\<forall>p v. (p, v) \<in> set (final_values (merged_values fs cl))
                   \<longrightarrow> map_of (merged_values fs cl) p = Some v)"
  proof
    fix cl
    assume cl: "cl \<in> set (cluster_pass fs (dict_keys fs) {})"
    from cluster_pass_similar [OF d cl] obtain seed found where
      s: "cl = seed # found"
        "\<forall>x\<in>set found. similarity_threshold \<le> calculate_similarity seed x" by blast
    then have "cl \<noteq> []" by simp
    then have c: "canonical_key fs cl \<in> set cl" by (rule canonical_key_mem)
    show "(\<exists>seed found. cl = seed # found
                \<and> (\<forall>x\<in>set found. similarity_threshold \<le> calculate_similarity seed x))
             \<and> canonical_key fs cl \<in> set cl
             \<and> distinct (map fst (final_values (merged_values fs cl)))
             \<and> fst ` set (final_values (merged_values fs cl)) = fst ` set (merged_values fs cl)
             \<and> (\<forall>p v. (p, v) \<in> set (final_values (merged_values fs cl))
                   \<longrightarrow> map_of (merged_values fs cl) p = Some v)"
      using s c final_values_first [of "merged_values fs cl"] by blast
  qed
next
  assume d: "distinct (dict_keys fs)" and g: "dict_get m category = Some []"
  let ?cls = "cluster_pass fs (dict_keys fs) {}"
  have "\<forall>cl\<in>set ?cls. canonical_key fs cl \<in> set cl"
  proof
    fix cl
    assume "cl \<in> set ?cls"
    from cluster_pass_similar [OF d this] have "cl \<noteq> []" by auto
    then show "canonical_key fs cl \<in> set cl" by (rule canonical_key_mem)
  qed
  then have "distinct (map (canonical_key fs) ?cls)"
    using cluster_pass_partition [OF d] distinct_map_of_concat by blast
  then have "distinct (map fst ([] :: features) @ map (canonical_key fs) ?cls)" by simp
  from store_clusters_result [OF g this]
  show "\<exists>m'. store_clusters category fs ?cls m = Inr m'
                \<and> dict_get m' category =
                    Some (map (\<lambda>cl. (canonical_key fs cl, final_values (merged_values fs cl)))
                            ?cls)"
    by simp
qed

text \<open>The theorem at a memory category with three labels, two of them similar.\<close>

theorem greedy_clusters_partition_witness:
  "(''memory'', [(''memory - RAM'', [(''A'', PStr ''8GB'')]),
                 (''memory - RAM Size'', [(''A'', PStr ''16GB'')]),
                 (''memory - Memory'', [(''B'', PStr ''12GB'')])])
     \<in> set (categorize_all
          [(''A'', [(''memory - RAM'', PStr ''8GB''), (''memory - RAM Size'', PStr ''16GB'')]),
           (''B'', [(''memory - Memory'', PStr ''12GB'')])])
   \<and> distinct (dict_keys [(''memory - RAM'', [(''A'', PStr ''8GB'')]),
                 (''memory - RAM Size'', [(''A'', PStr ''16GB'')]),
                 (''memory - Memory'', [(''B'', PStr ''12GB'')])])
   \<and> dict_get [(''memory'', [])] ''memory'' = Some ([] :: features)
   \<and> cluster_pass [(''memory - RAM'', [(''A'', PStr ''8GB'')]),
                 (''memory - RAM Size'', [(''A'', PStr ''16GB'')]),
                 (''memory - Memory'', [(''B'', PStr ''12GB'')])]
         (dict_keys [(''memory - RAM'', [(''A'', PStr ''8GB'')]),
                 (''memory - RAM Size'', [(''A'', PStr ''16GB'')]),
                 (''memory - Memory'', [(''B'', PStr ''12GB'')])]) {}
       = [[''memory - RAM'', ''memory - RAM Size''], [''memory - Memory'']]
   \<and> spec_greedy_clusters (dict_keys [(''memory - RAM'', [(''A'', PStr ''8GB'')]),
                 (''memory - RAM Size'', [(''A'', PStr ''16GB'')]),
                 (''memory - Memory'', [(''B'', PStr ''12GB'')])])
       = [[''memory - RAM'', ''memory - RAM Size''], [''memory - Memory'']]
   \<and> distinct (concat [[''memory - RAM'', ''memory - RAM Size''], [''memory - Memory'']])
   \<and> (\<exists>m'. store_clusters ''memory'' [(''memory - RAM'', [(''A'', PStr ''8GB'')]),
                 (''memory - RAM Size'', [(''A'', PStr ''16GB'')]),
                 (''memory - Memory'', [(''B'', PStr ''12GB'')])]
          [[''memory - RAM'', ''memory - RAM Size''], [''memory - Memory'']]
          [(''memory'', [])] = Inr m')"
proof -
  let ?fs = "[(''memory - RAM'', [(''A'', PStr ''8GB'')]),
                 (''memory - RAM Size'', [(''A'', PStr ''16GB'')]),
                 (''memory - Memory'', [(''B'', PStr ''12GB'')])] :: features"
  let ?all = "[(''A'', [(''memory - RAM'', PStr ''8GB''), (''memory - RAM Size'', PStr ''16GB'')]),
               (''B'', [(''memory - Memory'', PStr ''12GB'')])]"
  note t = greedy_clusters_partition [of "''memory''" ?fs ?all "[(''memory'', [])]"]
  have h0: "(''memory'', ?fs) \<in> set (categorize_all ?all)"
    unfolding categorize_all_sample by simp
  have h2: "dict_get [(''memory'', [])] ''memory'' = Some ([] :: features)" by simp
  from t h0 have d: "distinct (dict_keys ?fs)" by blast
  from t d have e: "cluster_pass ?fs (dict_keys ?fs) {} = spec_greedy_clusters (dict_keys ?fs)"
    by blast
  from t d have c: "distinct (concat (cluster_pass ?fs (dict_keys ?fs) {}))" by blast
  from t d h2 have m: "\<exists>m'. store_clusters ''memory'' ?fs
      (cluster_pass ?fs (dict_keys ?fs) {}) [(''memory'', [])] = Inr m'" by blast
  have g: "spec_greedy_clusters (dict_keys ?fs)
      = [[''memory - RAM'', ''memory - RAM Size''], [''memory - Memory'']]"
    using e cluster_pass_sample by simp
  show ?thesis
    using h0 d h2 g c m unfolding cluster_pass_sample by blast
qed

text \<open>
  The claim as stated fails: not every contribution appears under a canonical label.
  A product that has both \<^verbatim>\<open>RAM\<close> and \<^verbatim>\<open>RAM Size\<close> contributes twice to one cluster,
  and only its first value is kept: \<^verbatim>\<open>"16GB"\<close> appears nowhere in the result.
\<close>

theorem contribution_dropped_counterexample:
  "match_features
     [\<lparr>product_name = Some ''A'',
       specifications = Some [(''memory'', [(''RAM'', PStr ''8GB''),
                                            (''RAM Size'', PStr ''16GB'')])]\<rparr>]
   = Inr [(''processor'', []),
          (''memory'', [(''memory - RAM'', [(''A'', PStr ''8GB'')])]),
          (''storage'', []), (''display'', []), (''camera'', []), (''battery'', []),
          (''dimensions'', []), (''connectivity'', []), (''os'', []), (''price'', []),
          (''graphics'', []), (''other'', [])]"
  by code_simp

end
